theory Spec2Isabelle
  imports Main "HOL-Library.Sublist"
begin

section \<open>JavaScript strings and arrays, as far as the resolver uses them\<close>

text \<open>
  Strings are character lists. The host name and the path of a parsed URL are ASCII
  (the URL parser percent-encodes the path and punycodes the host), so one \<^typ>\<open>char\<close> is
  one UTF-16 code unit there. \<open>undefined\<close> and \<open>null\<close> are \<^const>\<open>None\<close>.
\<close>

text \<open>\<open>!v\<close> on a value that is a string, \<open>null\<close> or \<open>undefined\<close>: only a non-empty
  string is truthy.\<close>

fun truthy :: "string option \<Rightarrow> bool" where
  "truthy None = False"
| "truthy (Some s) = (s \<noteq> [])"

text \<open>\<open>v || d\<close> for a string-or-undefined \<open>v\<close> and a string default \<open>d\<close>.\<close>

fun or_default :: "string option \<Rightarrow> string \<Rightarrow> string" where
  "or_default None d = d"
| "or_default (Some s) d = (if s = [] then d else s)"

text \<open>\<open>xs[i]\<close>: \<open>undefined\<close> outside the array, also at a negative index.\<close>

definition js_index :: "'a list \<Rightarrow> int \<Rightarrow> 'a option" where
  "js_index xs i = (if 0 \<le> i \<and> i < int (length xs) then Some (xs ! nat i) else None)"

text \<open>\<open>xs.indexOf(x)\<close>: the first position of \<open>x\<close>, or \<open>-1\<close>.\<close>

fun indexOf :: "'a list \<Rightarrow> 'a \<Rightarrow> int" where
  "indexOf [] x = -1"
| "indexOf (y # ys) x = (if y = x then 0 else (let r = indexOf ys x in if r = -1 then -1 else r + 1))"

text \<open>\<open>s.split('/')\<close>: never the empty array; \<open>''.split('/')\<close> is \<open>['']\<close>.\<close>

fun js_split :: "char \<Rightarrow> string \<Rightarrow> string list" where
  "js_split sep [] = [[]]"
| "js_split sep (c # cs) =
     (if c = sep then [] # js_split sep cs
      else (case js_split sep cs of
              [] \<Rightarrow> [[c]]
            | w # ws \<Rightarrow> (c # w) # ws))"

text \<open>\<open>s.includes(sub)\<close>.\<close>

fun str_includes :: "string \<Rightarrow> string \<Rightarrow> bool" where
  "str_includes [] sub = (sub = [])"
| "str_includes (c # cs) sub = (prefix sub (c # cs) \<or> str_includes cs sub)"

text \<open>The character classes \<open>\d\<close> (\<open>[0-9]\<close>) and \<open>\w\<close> (\<open>[A-Za-z0-9_]\<close>) of a regular
  expression without the unicode flag.\<close>

definition is_digit :: "char \<Rightarrow> bool" where
  "is_digit c = (48 \<le> (of_char c :: nat) \<and> (of_char c :: nat) \<le> 57)"

definition is_lower :: "char \<Rightarrow> bool" where
  "is_lower c = (97 \<le> (of_char c :: nat) \<and> (of_char c :: nat) \<le> 122)"

definition is_upper :: "char \<Rightarrow> bool" where
  "is_upper c = (65 \<le> (of_char c :: nat) \<and> (of_char c :: nat) \<le> 90)"

definition is_word :: "char \<Rightarrow> bool" where
  "is_word c = (is_digit c \<or> is_lower c \<or> is_upper c \<or> c = CHR ''_'')"

text \<open>\<open>/^\d+$/\<close> tested against a string: one digit or more and nothing else.\<close>

definition all_digits :: "string \<Rightarrow> bool" where
  "all_digits s = (s \<noteq> [] \<and> list_all is_digit s)"

text \<open>\<open>l.toUpperCase()\<close> for a character \<open>l\<close> that \<open>\w\<close> matched.\<close>

definition toUpperCase :: "char \<Rightarrow> char" where
  "toUpperCase c = (if is_lower c then char_of ((of_char c :: nat) - 32) else c)"

text \<open>\<open>s.replace(/-/g, ' ')\<close>.\<close>

definition hyphens_to_spaces :: "string \<Rightarrow> string" where
  "hyphens_to_spaces s = map (\<lambda>c. if c = CHR ''-'' then CHR '' '' else c) s"

text \<open>\<open>s.replace(/\b\w/g, l => l.toUpperCase())\<close>: a word character is replaced when
  no word character stands before it. The flag says whether the character before the
  rest of the string is a word character.\<close>

fun capitalize_from :: "bool \<Rightarrow> string \<Rightarrow> string" where
  "capitalize_from prev [] = []"
| "capitalize_from prev (c # cs) =
     (if is_word c \<and> \<not> prev then toUpperCase c else c) # capitalize_from (is_word c) cs"

definition capitalize_words :: "string \<Rightarrow> string" where
  "capitalize_words s = capitalize_from False s"

text \<open>\<open>s.trim()\<close>, on the white space that fits a \<^typ>\<open>char\<close>: tab, line feed, vertical
  tab, form feed, carriage return, space and the no-break space.\<close>

definition is_space :: "char \<Rightarrow> bool" where
  "is_space c = ((of_char c :: nat) \<in> {9, 10, 11, 12, 13, 32, 160})"

definition js_trim :: "string \<Rightarrow> string" where
  "js_trim s = rev (dropWhile is_space (rev (dropWhile is_space s)))"

text \<open>\<open>s.match(/-(\d{9})-i-1/)\<close>: the first capture group of the leftmost match, or
  \<open>null\<close>.\<close>

fun og_image_match :: "string \<Rightarrow> string option" where
  "og_image_match [] = None"
| "og_image_match (c # cs) =
     (if c = CHR ''-'' \<and> length (take 9 cs) = 9 \<and> list_all is_digit (take 9 cs)
         \<and> prefix ''-i-1'' (drop 9 cs)
      then Some (take 9 cs)
      else og_image_match cs)"

section \<open>The outside world\<close>

text \<open>What \<open>new URL(url)\<close> exposes to the resolver: the host name, the path, and what
  \<open>searchParams.get('pid')\<close> returns.\<close>

record parsed_url =
  hostname :: string
  pathname :: string
  searchParams_pid :: "string option"

text \<open>What the HTML parser exposes of a fetched page: for every \<open>li.specifications-list\<close>
  element in document order the text of its \<open>span:first-child\<close> and of its
  \<open>.specifications-list--right ul\<close>, and the \<open>content\<close> attribute of the
  \<open>og:image\<close> meta element (\<open>undefined\<close> when there is none).\<close>

record spec_row =
  label_text :: string
  value_text :: string

record page =
  spec_rows :: "spec_row list"
  og_image :: "string option"

datatype response_body = Unreadable | Html page

datatype fetch_outcome =
    Rejected
  | Response (ok: bool) (body: response_body)

text \<open>The platform functions the resolver calls: the URL parser (\<^const>\<open>None\<close> when the
  constructor throws) and the HTTP client.\<close>

record world =
  urlParse :: "string \<Rightarrow> parsed_url option"
  fetchPage :: "string \<Rightarrow> fetch_outcome"

section \<open>Errors and results\<close>

text \<open>An exception object with its \<open>message\<close>: the ones the resolver throws itself and
  the two the engine throws.\<close>

datatype js_error = Error string | TypeError string

fun message :: "js_error \<Rightarrow> string" where
  "message (Error m) = m"
| "message (TypeError m) = m"

definition invalid_url :: js_error where
  "invalid_url = TypeError ''Invalid URL''"

definition undefined_replace :: js_error where
  "undefined_replace =
     TypeError (''Cannot read properties of undefined (reading '' @ [CHR 0x27] @ ''replace''
                @ [CHR 0x27] @ '')'')"

record product_details =
  name :: string
  productId :: string
  storeType :: string
  partNumber :: "string option"

text \<open>What \<open>getProductDetails\<close> resolves to: the object \<open>{ error: message }\<close> or the four
  fields of a product.\<close>

datatype details = Failure string | Details product_details

section \<open>The Reliance Digital scraper\<close>

text \<open>The \<open>each\<close> loop over the specification rows: the first row whose trimmed label
  is \<open>Item Code\<close> sets the article id and ends the loop.\<close>

fun each_row :: "spec_row list \<Rightarrow> string option \<Rightarrow> string option" where
  "each_row [] articleId = articleId"
| "each_row (el # els) articleId =
     (if js_trim (label_text el) = ''Item Code''
      then Some (js_trim (value_text el))
      else each_row els articleId)"

definition scrape_page :: "page \<Rightarrow> string option" where
  "scrape_page pg =
     (let articleId = each_row (spec_rows pg) None in
      if \<not> truthy articleId then
        (let imageMeta = og_image pg in
         if truthy imageMeta then
           (case og_image_match (or_default imageMeta []) of
              Some m \<Rightarrow> Some m
            | None \<Rightarrow> articleId)
         else articleId)
      else articleId)"

definition getRelianceDigitalArticleId :: "world \<Rightarrow> string \<Rightarrow> string option" where
  "getRelianceDigitalArticleId w url =
     (case fetchPage w url of
        Rejected \<Rightarrow> None
      | Response rok rbody \<Rightarrow>
          if \<not> rok then None
          else (case rbody of
                  Unreadable \<Rightarrow> None
                | Html pg \<Rightarrow> scrape_page pg))"

section \<open>The resolver\<close>

text \<open>The two name expressions of the source: hyphens to spaces, at most 50 characters,
  then the dots; the Vivo, iQOO and Reliance Digital branches capitalize the words
  before cutting.\<close>

definition plain_name :: "string \<Rightarrow> string" where
  "plain_name raw = take 50 (hyphens_to_spaces raw) @ ''...''"

definition title_name :: "string \<Rightarrow> string" where
  "title_name raw = take 50 (capitalize_words (hyphens_to_spaces raw)) @ ''...''"

definition nonempty_parts :: "string \<Rightarrow> string list" where
  "nonempty_parts p = filter (\<lambda>s. length s > 0) (js_split CHR ''/'' p)"

definition last_part :: "string list \<Rightarrow> string option" where
  "last_part pathParts = js_index pathParts (int (length pathParts) - 1)"

definition vivo_branch :: "parsed_url \<Rightarrow> js_error + product_details" where
  "vivo_branch u =
     (let pathParts = nonempty_parts (pathname u);
          pid = last_part pathParts
      in if \<not> truthy pid then Inl (Error ''Could not find a valid product ID in the Vivo URL.'')
         else
           (let nameSegment = (if length pathParts \<ge> 2 then pathParts ! (length pathParts - 2)
                               else ''Vivo Product'');
                rawName = (if nameSegment = ''product'' \<or> all_digits nameSegment
                           then ''Vivo Product'' else nameSegment)
            in Inr \<lparr> name = ''(Vivo) '' @ title_name rawName,
                     productId = or_default pid [],
                     storeType = ''vivo'',
                     partNumber = None \<rparr>))"

definition iqoo_branch :: "parsed_url \<Rightarrow> js_error + product_details" where
  "iqoo_branch u =
     (let pathParts = nonempty_parts (pathname u);
          pid = last_part pathParts
      in if \<not> truthy pid then Inl (Error ''Could not find a valid product ID in the iQOO URL.'')
         else
           (let nameSegment = (if length pathParts \<ge> 2 then pathParts ! (length pathParts - 2)
                               else ''iQOO Product'');
                rawName = (if nameSegment = ''product'' \<or> all_digits nameSegment
                           then ''iQOO Product'' else nameSegment)
            in Inr \<lparr> name = ''(iQOO) '' @ title_name rawName,
                     productId = or_default pid [],
                     storeType = ''iqoo'',
                     partNumber = None \<rparr>))"

definition reliance_branch :: "world \<Rightarrow> string \<Rightarrow> parsed_url \<Rightarrow> js_error + product_details" where
  "reliance_branch w url u =
     (let internalArticleId = getRelianceDigitalArticleId w url
      in if \<not> truthy internalArticleId
         then Inl (Error ''Could not extract the internal Item Code from the Reliance Digital page.'')
         else
           (let pathParts = nonempty_parts (pathname u);
                slug = last_part pathParts;
                nameBase = (if length pathParts > 1 then Some (pathParts ! (length pathParts - 2))
                            else slug)
            in case nameBase of
                 None \<Rightarrow> Inl undefined_replace
               | Some nb \<Rightarrow>
                   Inr \<lparr> name = ''(R. Digital) '' @ title_name nb,
                         productId = or_default internalArticleId [],
                         storeType = ''reliance_digital'',
                         partNumber = slug \<rparr>))"

definition flipkart_branch :: "parsed_url \<Rightarrow> js_error + product_details" where
  "flipkart_branch u =
     (let pid = searchParams_pid u
      in if \<not> truthy pid then Inl (Error ''Flipkart URL is missing a \"pid\" query parameter.'')
         else
           Inr \<lparr> name = ''(Flipkart) ''
                          @ plain_name (or_default (js_index (js_split CHR ''/'' (pathname u)) 1)
                                          ''Flipkart Product''),
                 productId = or_default pid [],
                 storeType = ''flipkart'',
                 partNumber = None \<rparr>)"

definition amazon_branch :: "parsed_url \<Rightarrow> js_error + product_details" where
  "amazon_branch u =
     (let pathParts = js_split CHR ''/'' (pathname u);
          dpIndex = indexOf pathParts ''dp''
      in if dpIndex = -1 \<or> \<not> truthy (js_index pathParts (dpIndex + 1))
         then Inl (Error ''Could not find a valid ASIN (e.g., /dp/B0CX59H5W7) in the Amazon URL.'')
         else
           Inr \<lparr> name = ''(Amazon) ''
                          @ plain_name (or_default (js_index pathParts (dpIndex - 1)) ''Amazon Product''),
                 productId = or_default (js_index pathParts (dpIndex + 1)) [],
                 storeType = ''amazon'',
                 partNumber = None \<rparr>)"

definition apple_branch :: "parsed_url \<Rightarrow> string option \<Rightarrow> js_error + product_details" where
  "apple_branch u partNo =
     (if \<not> truthy partNo then Inl (Error ''Apple products require a Part Number.'')
      else
        Inr \<lparr> name = ''(Apple) ''
                       @ plain_name (or_default (js_index (js_split CHR ''/'' (pathname u)) 3)
                                       ''Apple Product''),
              productId = or_default partNo [],
              storeType = ''apple'',
              partNumber = partNo \<rparr>)"

definition croma_branch :: "parsed_url \<Rightarrow> js_error + product_details" where
  "croma_branch u =
     (let pathParts = js_split CHR ''/'' (pathname u);
          pid = last_part pathParts
      in if \<not> truthy pid \<or> \<not> all_digits (or_default pid [])
         then Inl (Error ''Could not find a valid product ID in the Croma URL.'')
         else
           Inr \<lparr> name = ''(Croma) ''
                          @ plain_name (or_default (js_index pathParts 1) ''Croma Product''),
                 productId = or_default pid [],
                 storeType = ''croma'',
                 partNumber = None \<rparr>)"

definition unsupported :: js_error where
  "unsupported =
     Error ''Sorry, only Croma, Apple, Amazon, Flipkart, Vivo, iQOO, and Reliance Digital URLs are supported.''"

text \<open>The body of the \<open>try\<close> block: \<^const>\<open>Inl\<close> is a thrown exception.\<close>

definition resolve :: "world \<Rightarrow> string \<Rightarrow> string option \<Rightarrow> js_error + product_details" where
  "resolve w url partNo =
     (case urlParse w url of
        None \<Rightarrow> Inl invalid_url
      | Some parsedUrl \<Rightarrow>
          if str_includes (hostname parsedUrl) ''vivo.com''
             \<and> \<not> str_includes (hostname parsedUrl) ''iqoo.com''
          then vivo_branch parsedUrl
          else if str_includes (hostname parsedUrl) ''iqoo.com'' then iqoo_branch parsedUrl
          else if str_includes (hostname parsedUrl) ''reliancedigital.in''
          then reliance_branch w url parsedUrl
          else if str_includes (hostname parsedUrl) ''flipkart.com'' then flipkart_branch parsedUrl
          else if str_includes (hostname parsedUrl) ''amazon.in'' then amazon_branch parsedUrl
          else if str_includes (hostname parsedUrl) ''apple.com'' then apple_branch parsedUrl partNo
          else if str_includes (hostname parsedUrl) ''croma.com'' then croma_branch parsedUrl
          else Inl unsupported)"

text \<open>\<open>getProductDetails\<close>: the \<open>try\<close> block with its \<open>catch\<close>, which returns the
  message of whatever was thrown.\<close>

definition getProductDetails :: "world \<Rightarrow> string \<Rightarrow> string option \<Rightarrow> details" where
  "getProductDetails w url partNo =
     (case resolve w url partNo of
        Inl e \<Rightarrow> Failure (message e)
      | Inr d \<Rightarrow> Details d)"

section \<open>The server action\<close>

text \<open>The three fields \<open>addProduct\<close> reads from the submitted form; \<open>formData.get\<close> gives
  \<open>null\<close> for a field that is absent.\<close>

record form =
  form_url :: "string option"
  form_partNumber :: "string option"
  form_affiliateLink :: "string option"

text \<open>The \<open>data\<close> object handed to \<open>prisma.product.create\<close>. A field read from an object
  that does not have it is \<open>undefined\<close>.\<close>

record product_row =
  row_name :: "string option"
  row_url :: string
  row_productId :: "string option"
  row_storeType :: "string option"
  row_partNumber :: "string option"
  row_affiliateLink :: "string option"

text \<open>The persistence layer as the action sees it: the rows stored, every \<open>create\<close> call
  made so far, and the paths revalidated. Whether \<open>create\<close> throws (a duplicate, say) is
  decided by the store.\<close>

record server =
  stored :: "product_row list"
  create_calls :: "product_row list"
  revalidated :: "string list"
  rejects :: "product_row list \<Rightarrow> product_row \<Rightarrow> bool"

datatype action_result = ActionError string | ActionSuccess string

fun details_error :: "details \<Rightarrow> string option" where
  "details_error (Failure m) = Some m"
| "details_error (Details d) = None"

fun details_name :: "details \<Rightarrow> string option" where
  "details_name (Failure m) = None"
| "details_name (Details d) = Some (name d)"

fun details_productId :: "details \<Rightarrow> string option" where
  "details_productId (Failure m) = None"
| "details_productId (Details d) = Some (productId d)"

fun details_storeType :: "details \<Rightarrow> string option" where
  "details_storeType (Failure m) = None"
| "details_storeType (Details d) = Some (storeType d)"

fun details_partNumber :: "details \<Rightarrow> string option" where
  "details_partNumber (Failure m) = None"
| "details_partNumber (Details d) = partNumber d"

text \<open>A string-or-undefined value inside a template literal.\<close>

fun interpolate :: "string option \<Rightarrow> string" where
  "interpolate None = ''undefined''"
| "interpolate (Some s) = s"

definition addProduct :: "world \<Rightarrow> form \<Rightarrow> server \<Rightarrow> action_result \<times> server" where
  "addProduct w formData s =
     (let url = form_url formData;
          partNo = form_partNumber formData;
          affiliateLink = form_affiliateLink formData
      in if \<not> truthy url then (ActionError ''URL is required.'', s)
         else
           (let details = getProductDetails w (or_default url []) partNo
            in if truthy (details_error details)
               then (ActionError (or_default (details_error details) []), s)
               else
                 (let row = \<lparr> row_name = details_name details,
                                row_url = or_default url [],
                                row_productId = details_productId details,
                                row_storeType = details_storeType details,
                                row_partNumber = details_partNumber details,
                                row_affiliateLink = (if truthy affiliateLink then affiliateLink else None) \<rparr>;
                      s1 = s \<lparr> create_calls := create_calls s @ [row] \<rparr>
                  in if rejects s (stored s) row
                     then (ActionError ''Failed to add product. Is it a duplicate?'', s1)
                     else (ActionSuccess (''Added '' @ interpolate (details_name details)),
                           s1 \<lparr> stored := stored s @ [row],
                                 revalidated := revalidated s @ [''/''] \<rparr>))))"

section \<open>Sample inputs\<close>

text \<open>What the URL parser answers for a few addresses, and what the HTTP client and the
  HTML parser answer for the Reliance Digital ones. Everything else does not parse, or is
  not reachable.\<close>

definition sample_parse :: "string \<Rightarrow> parsed_url option" where
  "sample_parse url =
     (if url = ''https://www.amazon.in/Some-Great-Item/dp/B0CX59H5W7''
      then Some \<lparr> hostname = ''www.amazon.in'', pathname = ''/Some-Great-Item/dp/B0CX59H5W7'',
                   searchParams_pid = None \<rparr>
      else if url = ''https://www.amazon.in/dp//x/dp/B0CX59H5W7''
      then Some \<lparr> hostname = ''www.amazon.in'', pathname = ''/dp//x/dp/B0CX59H5W7'',
                   searchParams_pid = None \<rparr>
      else if url = ''https://amazon.in.flipkart.com/Some-Great-Item/dp/B0CX59H5W7''
      then Some \<lparr> hostname = ''amazon.in.flipkart.com'', pathname = ''/Some-Great-Item/dp/B0CX59H5W7'',
                   searchParams_pid = None \<rparr>
      else if url = ''https://www.croma.com/tv/p/123456''
      then Some \<lparr> hostname = ''www.croma.com'', pathname = ''/tv/p/123456'',
                   searchParams_pid = None \<rparr>
      else if url = ''https://www.croma.com/tv/p/123456/''
      then Some \<lparr> hostname = ''www.croma.com'', pathname = ''/tv/p/123456/'',
                   searchParams_pid = None \<rparr>
      else if url = ''https://www.croma.com/product/abc''
      then Some \<lparr> hostname = ''www.croma.com'', pathname = ''/product/abc'',
                   searchParams_pid = None \<rparr>
      else if url = ''https://croma.com.flipkart.com/tv/p/123456?pid=TVX1''
      then Some \<lparr> hostname = ''croma.com.flipkart.com'', pathname = ''/tv/p/123456'',
                   searchParams_pid = Some ''TVX1'' \<rparr>
      else if url = ''https://shop.iqoo.com/in/product/2057''
      then Some \<lparr> hostname = ''shop.iqoo.com'', pathname = ''/in/product/2057'',
                   searchParams_pid = None \<rparr>
      else if url = ''https://iqoo.com.vivo.com/in/iqoo-z7-pro/2057''
      then Some \<lparr> hostname = ''iqoo.com.vivo.com'', pathname = ''/in/iqoo-z7-pro/2057'',
                   searchParams_pid = None \<rparr>
      else if url = ''https://www.reliancedigital.in/samsung-galaxy-s24-ultra-5g-256-gb-titanium-gray-smartphone-with-s-pen/491234567''
      then Some \<lparr> hostname = ''www.reliancedigital.in'',
                   pathname = ''/samsung-galaxy-s24-ultra-5g-256-gb-titanium-gray-smartphone-with-s-pen/491234567'',
                   searchParams_pid = None \<rparr>
      else if url = ''https://www.reliancedigital.in/foo/p/1''
      then Some \<lparr> hostname = ''www.reliancedigital.in'', pathname = ''/foo/p/1'',
                   searchParams_pid = None \<rparr>
      else if url = ''https://www.reliancedigital.in/bar/p/2''
      then Some \<lparr> hostname = ''www.reliancedigital.in'', pathname = ''/bar/p/2'',
                   searchParams_pid = None \<rparr>
      else if url = ''https://www.reliancedigital.in/offline/p/3''
      then Some \<lparr> hostname = ''www.reliancedigital.in'', pathname = ''/offline/p/3'',
                   searchParams_pid = None \<rparr>
      else None)"

definition item_code_page :: page where
  "item_code_page =
     \<lparr> spec_rows = [\<lparr> label_text = ''Brand'', value_text = ''Samsung'' \<rparr>,
                     \<lparr> label_text = '' Item Code '', value_text = '' 300012345 '' \<rparr>,
                     \<lparr> label_text = ''Item Code'', value_text = ''999999999'' \<rparr>],
       og_image = Some ''https://cdn.example/img/foo-111111111-i-1-202.jpg'' \<rparr>"

definition og_image_page :: page where
  "og_image_page =
     \<lparr> spec_rows = [],
       og_image = Some ''https://cdn.example/img/foo-300012345-i-1-202.jpg'' \<rparr>"

definition empty_code_page :: page where
  "empty_code_page =
     \<lparr> spec_rows = [\<lparr> label_text = ''Item Code'', value_text = ''  '' \<rparr>,
                     \<lparr> label_text = ''Item Code'', value_text = ''999999999'' \<rparr>],
       og_image = Some ''https://cdn.example/img/bar-300054321-i-1-202.jpg'' \<rparr>"

definition sample_fetch :: "string \<Rightarrow> fetch_outcome" where
  "sample_fetch url =
     (if url = ''https://www.reliancedigital.in/samsung-galaxy-s24-ultra-5g-256-gb-titanium-gray-smartphone-with-s-pen/491234567''
      then Response True (Html item_code_page)
      else if url = ''https://www.reliancedigital.in/foo/p/1''
      then Response True (Html og_image_page)
      else if url = ''https://www.reliancedigital.in/bar/p/2''
      then Response True (Html empty_code_page)
      else Rejected)"

definition sample_world :: world where
  "sample_world = \<lparr> urlParse = sample_parse, fetchPage = sample_fetch \<rparr>"

definition empty_server :: server where
  "empty_server = \<lparr> stored = [], create_calls = [], revalidated = [], rejects = (\<lambda>rows row. False) \<rparr>"

section \<open>What every branch returns\<close>

text \<open>The common shape of the products the seven branches build: the store tag, a
  product id that is not empty, and a name made of the store's label and one of the two
  name expressions.\<close>

definition branch_shape :: "string \<Rightarrow> string \<Rightarrow> product_details \<Rightarrow> bool" where
  "branch_shape label store d =
     (storeType d = store \<and> productId d \<noteq> [] \<and>
      (\<exists>raw. name d = label @ plain_name raw \<or> name d = label @ title_name raw))"

text \<open>The labels the branches put before a name.\<close>

definition store_labels :: "string list" where
  "store_labels = [''(Vivo) '', ''(iQOO) '', ''(R. Digital) '', ''(Flipkart) '', ''(Amazon) '',
                   ''(Apple) '', ''(Croma) '']"

section \<open>Auxiliary facts\<close>

subsection \<open>Strings, names and the shape of a product\<close>

lemma truthy_or_default: "truthy v \<Longrightarrow> v = Some (or_default v d) \<and> or_default v d \<noteq> []"
  by (cases v) auto

lemma length_capitalize_from: "length (capitalize_from b s) = length s"
  by (induction s arbitrary: b) auto

lemma length_plain_name_le: "length (plain_name raw) \<le> 53"
  by (simp add: plain_name_def)

lemma length_title_name_le: "length (title_name raw) \<le> 53"
  by (simp add: title_name_def)

lemma length_plain_name_long: "50 < length raw \<Longrightarrow> length (plain_name raw) = 53"
  by (simp add: plain_name_def hyphens_to_spaces_def)

lemma length_title_name_long: "50 < length raw \<Longrightarrow> length (title_name raw) = 53"
  by (simp add: title_name_def hyphens_to_spaces_def capitalize_words_def length_capitalize_from)

lemma suffix_plain_name: "suffix ''...'' (plain_name raw)"
  unfolding plain_name_def by (rule suffixI) simp

lemma suffix_title_name: "suffix ''...'' (title_name raw)"
  unfolding title_name_def by (rule suffixI) simp

subsection \<open>The dispatch on the host\<close>

text \<open>Every product the \<open>try\<close> block returns comes from one of the seven branches, and
  every exception from one of them, from the URL parser or from the final \<open>throw\<close>.\<close>

lemma resolve_Inr_cases:
  assumes "resolve w url partNo = Inr d"
  obtains u where "vivo_branch u = Inr d"
  | u where "iqoo_branch u = Inr d"
  | u where "reliance_branch w url u = Inr d"
  | u where "flipkart_branch u = Inr d"
  | u where "amazon_branch u = Inr d"
  | u where "apple_branch u partNo = Inr d"
  | u where "croma_branch u = Inr d"
proof (cases "urlParse w url")
  case None
  with assms show ?thesis by (simp add: resolve_def)
next
  case (Some u)
  with assms have "vivo_branch u = Inr d \<or> iqoo_branch u = Inr d \<or> reliance_branch w url u = Inr d
      \<or> flipkart_branch u = Inr d \<or> amazon_branch u = Inr d \<or> apple_branch u partNo = Inr d
      \<or> croma_branch u = Inr d"
    unfolding resolve_def by (simp split: if_splits)
  with that show ?thesis by blast
qed

lemma resolve_Inl_cases:
  assumes "resolve w url partNo = Inl e"
  obtains "e = invalid_url" | "e = unsupported"
  | u where "vivo_branch u = Inl e"
  | u where "iqoo_branch u = Inl e"
  | u where "reliance_branch w url u = Inl e"
  | u where "flipkart_branch u = Inl e"
  | u where "amazon_branch u = Inl e"
  | u where "apple_branch u partNo = Inl e"
  | u where "croma_branch u = Inl e"
proof (cases "urlParse w url")
  case None
  with assms have "e = invalid_url" by (simp add: resolve_def)
  with that show ?thesis by blast
next
  case (Some u)
  with assms have "e = unsupported \<or> vivo_branch u = Inl e \<or> iqoo_branch u = Inl e
      \<or> reliance_branch w url u = Inl e
      \<or> flipkart_branch u = Inl e \<or> amazon_branch u = Inl e \<or> apple_branch u partNo = Inl e
      \<or> croma_branch u = Inl e"
    unfolding resolve_def by (simp split: if_splits)
  with that show ?thesis by blast
qed

lemma resolve_reliance:
  assumes "urlParse w url = Some u"
    and "str_includes (hostname u) ''reliancedigital.in''"
    and "\<not> str_includes (hostname u) ''vivo.com''"
    and "\<not> str_includes (hostname u) ''iqoo.com''"
  shows "resolve w url partNo = reliance_branch w url u"
  using assms by (simp add: resolve_def)

lemma resolve_amazon:
  assumes "urlParse w url = Some u"
    and "str_includes (hostname u) ''amazon.in''"
    and "\<not> str_includes (hostname u) ''vivo.com''"
    and "\<not> str_includes (hostname u) ''iqoo.com''"
    and "\<not> str_includes (hostname u) ''reliancedigital.in''"
    and "\<not> str_includes (hostname u) ''flipkart.com''"
  shows "resolve w url partNo = amazon_branch u"
  using assms by (simp add: resolve_def)

lemma resolve_croma:
  assumes "urlParse w url = Some u"
    and "str_includes (hostname u) ''croma.com''"
    and "\<not> str_includes (hostname u) ''vivo.com''"
    and "\<not> str_includes (hostname u) ''iqoo.com''"
    and "\<not> str_includes (hostname u) ''reliancedigital.in''"
    and "\<not> str_includes (hostname u) ''flipkart.com''"
    and "\<not> str_includes (hostname u) ''amazon.in''"
    and "\<not> str_includes (hostname u) ''apple.com''"
  shows "resolve w url partNo = croma_branch u"
  using assms by (simp add: resolve_def)

lemma getProductDetails_catch:
  "getProductDetails w url partNo =
     (case resolve w url partNo of Inl e \<Rightarrow> Failure (message e) | Inr d \<Rightarrow> Details d)"
  by (simp add: getProductDetails_def)

lemma getProductDetails_Details: "getProductDetails w url pn = Details d \<longleftrightarrow> resolve w url pn = Inr d"
  by (simp add: getProductDetails_def split: sum.splits)

lemma getProductDetails_Failure: "getProductDetails w url pn = Failure m \<longleftrightarrow> (\<exists>e. resolve w url pn = Inl e \<and> message e = m)"
  by (auto simp add: getProductDetails_def split: sum.splits)

subsection \<open>What each branch returns and throws\<close>

lemma vivo_shape: "vivo_branch u = Inr d \<Longrightarrow> branch_shape ''(Vivo) '' ''vivo'' d"
  unfolding vivo_branch_def branch_shape_def Let_def
  by (auto split: if_splits dest: truthy_or_default)

lemma iqoo_shape: "iqoo_branch u = Inr d \<Longrightarrow> branch_shape ''(iQOO) '' ''iqoo'' d"
  unfolding iqoo_branch_def branch_shape_def Let_def
  by (auto split: if_splits dest: truthy_or_default)

lemma reliance_shape:
  "reliance_branch w url u = Inr d \<Longrightarrow> branch_shape ''(R. Digital) '' ''reliance_digital'' d"
  unfolding reliance_branch_def branch_shape_def Let_def
  by (auto split: if_splits option.splits dest: truthy_or_default)

lemma flipkart_shape: "flipkart_branch u = Inr d \<Longrightarrow> branch_shape ''(Flipkart) '' ''flipkart'' d"
  unfolding flipkart_branch_def branch_shape_def Let_def
  by (auto split: if_splits dest: truthy_or_default)

lemma amazon_shape: "amazon_branch u = Inr d \<Longrightarrow> branch_shape ''(Amazon) '' ''amazon'' d"
  unfolding amazon_branch_def branch_shape_def Let_def
  by (auto split: if_splits dest: truthy_or_default)

lemma apple_shape: "apple_branch u pn = Inr d \<Longrightarrow> branch_shape ''(Apple) '' ''apple'' d"
  unfolding apple_branch_def branch_shape_def Let_def
  by (auto split: if_splits dest: truthy_or_default)

lemma croma_shape: "croma_branch u = Inr d \<Longrightarrow> branch_shape ''(Croma) '' ''croma'' d"
  unfolding croma_branch_def branch_shape_def Let_def
  by (auto split: if_splits dest: truthy_or_default)

lemma vivo_error: "vivo_branch u = Inl e \<Longrightarrow> e = Error ''Could not find a valid product ID in the Vivo URL.''"
  unfolding vivo_branch_def Let_def by (simp split: if_splits)

lemma iqoo_error: "iqoo_branch u = Inl e \<Longrightarrow> e = Error ''Could not find a valid product ID in the iQOO URL.''"
  unfolding iqoo_branch_def Let_def by (simp split: if_splits)

lemma reliance_error:
  "reliance_branch w url u = Inl e \<Longrightarrow>
     e = Error ''Could not extract the internal Item Code from the Reliance Digital page.''
     \<or> e = undefined_replace"
  unfolding reliance_branch_def Let_def by (simp split: if_splits option.splits)

lemma flipkart_error: "flipkart_branch u = Inl e \<Longrightarrow> e = Error ''Flipkart URL is missing a \"pid\" query parameter.''"
  unfolding flipkart_branch_def Let_def by (simp split: if_splits)

lemma amazon_error: "amazon_branch u = Inl e \<Longrightarrow> e = Error ''Could not find a valid ASIN (e.g., /dp/B0CX59H5W7) in the Amazon URL.''"
  unfolding amazon_branch_def Let_def by (simp split: if_splits)

lemma apple_error: "apple_branch u pn = Inl e \<Longrightarrow> e = Error ''Apple products require a Part Number.''"
  unfolding apple_branch_def Let_def by (simp split: if_splits)

lemma croma_error: "croma_branch u = Inl e \<Longrightarrow> e = Error ''Could not find a valid product ID in the Croma URL.''"
  unfolding croma_branch_def Let_def by (simp split: if_splits)

lemma resolve_error_message:
  assumes "resolve w url partNo = Inl e" shows "message e \<noteq> []"
  using assms
proof (cases rule: resolve_Inl_cases)
  case 1 then show ?thesis by (simp add: invalid_url_def)
next
  case 2 then show ?thesis by (simp add: unsupported_def)
next
  case (3 u) then show ?thesis by (auto dest: vivo_error)
next
  case (4 u) then show ?thesis by (auto dest: iqoo_error)
next
  case (5 u) then show ?thesis by (auto dest!: reliance_error simp: undefined_replace_def)
next
  case (6 u) then show ?thesis by (auto dest: flipkart_error)
next
  case (7 u) then show ?thesis by (auto dest: amazon_error)
next
  case (8 u) then show ?thesis by (auto dest: apple_error)
next
  case (9 u) then show ?thesis by (auto dest: croma_error)
qed

lemma resolve_shape:
  assumes "resolve w url partNo = Inr d"
  shows "branch_shape ''(Vivo) '' ''vivo'' d \<or> branch_shape ''(iQOO) '' ''iqoo'' d
       \<or> branch_shape ''(R. Digital) '' ''reliance_digital'' d
       \<or> branch_shape ''(Flipkart) '' ''flipkart'' d \<or> branch_shape ''(Amazon) '' ''amazon'' d
       \<or> branch_shape ''(Apple) '' ''apple'' d \<or> branch_shape ''(Croma) '' ''croma'' d"
  using assms
  by (cases rule: resolve_Inr_cases)
     (blast dest: vivo_shape iqoo_shape reliance_shape flipkart_shape amazon_shape apple_shape croma_shape)+

lemma shape_productId: "branch_shape l s d \<Longrightarrow> productId d \<noteq> []"
  by (simp add: branch_shape_def)

lemma shape_suffix: "branch_shape l s d \<Longrightarrow> suffix ''...'' (name d)"
  unfolding branch_shape_def using suffix_plain_name suffix_title_name
  by (metis suffix_appendI)

lemma shape_length: "branch_shape l s d \<Longrightarrow> \<exists>body. name d = l @ body \<and> length body \<le> 53 \<and> suffix ''...'' body"
  unfolding branch_shape_def
  using suffix_plain_name suffix_title_name length_plain_name_le length_title_name_le
  by metis

lemma shape_name:
  assumes "branch_shape l s d"
  shows "\<exists>raw body. name d = l @ body @ ''...''
           \<and> (body = take 50 (hyphens_to_spaces raw)
                \<or> body = take 50 (capitalize_words (hyphens_to_spaces raw)))
           \<and> length body \<le> 50 \<and> (50 < length raw \<longrightarrow> length body = 50)"
proof -
  from assms obtain raw where
    r: "name d = l @ plain_name raw \<or> name d = l @ title_name raw"
    unfolding branch_shape_def by blast
  have lp: "length (take 50 (hyphens_to_spaces raw)) \<le> 50" by simp
  have lt: "length (take 50 (capitalize_words (hyphens_to_spaces raw))) \<le> 50" by simp
  have ep: "50 < length raw \<longrightarrow> length (take 50 (hyphens_to_spaces raw)) = 50"
    by (simp add: hyphens_to_spaces_def)
  have et: "50 < length raw \<longrightarrow> length (take 50 (capitalize_words (hyphens_to_spaces raw))) = 50"
    by (simp add: hyphens_to_spaces_def capitalize_words_def length_capitalize_from)
  from r show ?thesis
  proof
    assume "name d = l @ plain_name raw"
    then have "name d = l @ take 50 (hyphens_to_spaces raw) @ ''...''"
      by (simp only: plain_name_def)
    with lp ep show ?thesis by blast
  next
    assume "name d = l @ title_name raw"
    then have "name d = l @ take 50 (capitalize_words (hyphens_to_spaces raw)) @ ''...''"
      by (simp only: title_name_def)
    with lt et show ?thesis by blast
  qed
qed

lemma store_labels_length: "l \<in> set store_labels \<Longrightarrow> length l \<le> 13"
  by (auto simp: store_labels_def)

lemma resolve_label:
  assumes "resolve w url partNo = Inr d"
  shows "\<exists>l s. l \<in> set store_labels \<and> branch_shape l s d"
proof -
  have m: "''(Vivo) '' \<in> set store_labels" "''(iQOO) '' \<in> set store_labels"
    "''(R. Digital) '' \<in> set store_labels" "''(Flipkart) '' \<in> set store_labels"
    "''(Amazon) '' \<in> set store_labels" "''(Apple) '' \<in> set store_labels"
    "''(Croma) '' \<in> set store_labels"
    by (simp_all add: store_labels_def)
  from resolve_shape[OF assms] m show ?thesis by blast
qed

lemma iqoo_neq_vivo: "iqoo_branch u \<noteq> vivo_branch u"
proof (cases "truthy (last_part (nonempty_parts (pathname u)))")
  case True
  then show ?thesis by (simp add: iqoo_branch_def vivo_branch_def Let_def)
next
  case False
  then show ?thesis by (simp add: iqoo_branch_def vivo_branch_def Let_def)
qed

subsection \<open>The scraper\<close>

lemma each_row_skip:
  "list_all (\<lambda>r. js_trim (label_text r) \<noteq> ''Item Code'') rows \<Longrightarrow> each_row (rows @ rest) acc = each_row rest acc"
  by (induction rows) simp_all

lemma each_row_first:
  assumes "list_all (\<lambda>r. js_trim (label_text r) \<noteq> ''Item Code'') pre"
    and "js_trim (label_text el) = ''Item Code''"
  shows "each_row (pre @ el # post) acc = Some (js_trim (value_text el))"
  using each_row_skip[OF assms(1), of "el # post" acc] assms(2) by simp

lemma each_row_none:
  assumes "list_all (\<lambda>r. js_trim (label_text r) \<noteq> ''Item Code'') rows"
  shows "each_row rows acc = acc"
  using each_row_skip[OF assms, of "[]" acc] by simp

lemma og_image_match_Some:
  "og_image_match s = Some d \<Longrightarrow>
     length d = 9 \<and> list_all is_digit d \<and> (\<exists>pre post. s = pre @ ''-'' @ d @ ''-i-1'' @ post)"
proof (induction s)
  case Nil
  then show ?case by simp
next
  case (Cons c cs)
  show ?case
  proof (cases "c = CHR ''-'' \<and> length (take 9 cs) = 9 \<and> list_all is_digit (take 9 cs)
         \<and> prefix ''-i-1'' (drop 9 cs)")
    case True
    with Cons.prems have d: "d = take 9 cs" by simp
    from True obtain post where p: "drop 9 cs = ''-i-1'' @ post" by (auto simp: prefix_def)
    have "cs = take 9 cs @ drop 9 cs" by simp
    with p have "cs = d @ ''-i-1'' @ post" using d by metis
    with True have "c # cs = [] @ ''-'' @ d @ ''-i-1'' @ post" by simp
    with True d show ?thesis by blast
  next
    case False
    with Cons.prems have "og_image_match cs = Some d" by auto
    from Cons.IH[OF this] obtain pre post where
      "length d = 9" "list_all is_digit d" "cs = pre @ ''-'' @ d @ ''-i-1'' @ post" by blast
    then have "c # cs = (c # pre) @ ''-'' @ d @ ''-i-1'' @ post" by simp
    with \<open>length d = 9\<close> \<open>list_all is_digit d\<close> show ?thesis by blast
  qed
qed

lemma og_image_match_None:
  "og_image_match s = None \<Longrightarrow>
     \<not> (\<exists>pre d post. s = pre @ ''-'' @ d @ ''-i-1'' @ post \<and> length d = 9 \<and> list_all is_digit d)"
proof (induction s)
  case Nil
  then show ?case by simp
next
  case (Cons c cs)
  have no: "\<not> (c = CHR ''-'' \<and> length (take 9 cs) = 9 \<and> list_all is_digit (take 9 cs)
         \<and> prefix ''-i-1'' (drop 9 cs))"
    using Cons.prems by (auto split: if_splits)
  then have rest: "og_image_match cs = None" using Cons.prems by auto
  show ?case
  proof
    assume "\<exists>pre d post. c # cs = pre @ ''-'' @ d @ ''-i-1'' @ post \<and> length d = 9 \<and> list_all is_digit d"
    then obtain pre d post where
      e: "c # cs = pre @ ''-'' @ d @ ''-i-1'' @ post" and l: "length d = 9" and g: "list_all is_digit d"
      by blast
    show False
    proof (cases pre)
      case Nil
      with e have c: "c = CHR ''-''" and cs: "cs = d @ ''-i-1'' @ post" by simp_all
      from cs l have "take 9 cs = d" "drop 9 cs = ''-i-1'' @ post" by simp_all
      with c l g no show False by (simp add: prefix_def)
    next
      case (Cons p pre')
      with e have "cs = pre' @ ''-'' @ d @ ''-i-1'' @ post" by simp
      with l g Cons.IH[OF rest] show False by blast
    qed
  qed
qed

lemma scrape_first_row:
  assumes "spec_rows pg = pre @ el # post"
    and "list_all (\<lambda>r. js_trim (label_text r) \<noteq> ''Item Code'') pre"
    and "js_trim (label_text el) = ''Item Code''"
  shows "scrape_page pg =
     (if js_trim (value_text el) \<noteq> [] then Some (js_trim (value_text el))
      else (case og_image pg of
              None \<Rightarrow> Some []
            | Some im \<Rightarrow> (case og_image_match im of None \<Rightarrow> Some [] | Some m \<Rightarrow> Some m)))"
proof -
  have e: "each_row (spec_rows pg) None = Some (js_trim (value_text el))"
    using each_row_first[OF assms(2,3)] assms(1) by simp
  show ?thesis
  proof (cases "og_image pg")
    case None
    with e show ?thesis by (simp add: scrape_page_def)
  next
    case (Some im)
    with e show ?thesis by (cases "im = []") (simp_all add: scrape_page_def)
  qed
qed

lemma scrape_no_row:
  assumes "list_all (\<lambda>r. js_trim (label_text r) \<noteq> ''Item Code'') (spec_rows pg)"
  shows "scrape_page pg = (case og_image pg of None \<Rightarrow> None | Some im \<Rightarrow> og_image_match im)"
proof -
  have e: "each_row (spec_rows pg) None = None"
    using each_row_none[OF assms] by simp
  show ?thesis
  proof (cases "og_image pg")
    case None
    with e show ?thesis by (simp add: scrape_page_def)
  next
    case (Some im)
    with e show ?thesis
      by (cases "im = []") (simp_all add: scrape_page_def split: option.splits)
  qed
qed

lemma scrape_nothing:
  assumes "\<not> truthy (each_row (spec_rows pg) None)"
    and "case og_image pg of None \<Rightarrow> True | Some im \<Rightarrow> og_image_match im = None"
  shows "\<not> truthy (scrape_page pg)"
  using assms by (auto simp: scrape_page_def Let_def split: option.splits)

lemma article_id_ok:
  "fetchPage w url = Response True (Html pg) \<Longrightarrow> getRelianceDigitalArticleId w url = scrape_page pg"
  by (simp add: getRelianceDigitalArticleId_def)

lemma article_id_failed:
  assumes "fetchPage w url = Rejected \<or> (\<exists>b. fetchPage w url = Response False b)
           \<or> fetchPage w url = Response True Unreadable"
  shows "getRelianceDigitalArticleId w url = None"
  using assms by (auto simp: getRelianceDigitalArticleId_def)

lemma reliance_no_article:
  "\<not> truthy (getRelianceDigitalArticleId w url) \<Longrightarrow>
   reliance_branch w url u =
     Inl (Error ''Could not extract the internal Item Code from the Reliance Digital page.'')"
  by (simp add: reliance_branch_def)

lemma reliance_productId:
  "reliance_branch w url u = Inr d \<Longrightarrow> getRelianceDigitalArticleId w url = Some (productId d)"
  unfolding reliance_branch_def Let_def
  by (auto split: if_splits option.splits dest: truthy_or_default)

lemma scrape_failure:
  assumes "urlParse w url = Some u"
    and "str_includes (hostname u) ''reliancedigital.in''"
    and "\<not> str_includes (hostname u) ''vivo.com''"
    and "\<not> str_includes (hostname u) ''iqoo.com''"
    and "fetchPage w url = Rejected \<or> (\<exists>b. fetchPage w url = Response False b)
           \<or> fetchPage w url = Response True Unreadable"
  shows "getProductDetails w url partNo
         = Failure ''Could not extract the internal Item Code from the Reliance Digital page.''"
proof -
  have "\<not> truthy (getRelianceDigitalArticleId w url)"
    using article_id_failed[OF assms(5)] by simp
  from reliance_no_article[OF this, of u] resolve_reliance[OF assms(1-4), of partNo]
  show ?thesis by (simp add: getProductDetails_catch)
qed

subsection \<open>Array positions and path segments\<close>

lemma indexOf_notin: "x \<notin> set xs \<Longrightarrow> indexOf xs x = -1"
  by (induction xs) auto

lemma indexOf_first: "x \<notin> set pre \<Longrightarrow> indexOf (pre @ x # rest) x = int (length pre)"
proof (induction pre)
  case Nil
  then show ?case by simp
next
  case (Cons p pre)
  then show ?case by (auto simp: Let_def)
qed

lemma js_index_after:
  "js_index (pre @ x # rest) (int (length pre) + 1) = (case rest of [] \<Rightarrow> None | s # _ \<Rightarrow> Some s)"
  by (cases rest) (simp_all add: js_index_def nth_append nat_add_distrib)

lemma js_index_before:
  "js_index (pre @ x # rest) (int (length pre) - 1) = (case rev pre of [] \<Rightarrow> None | p # _ \<Rightarrow> Some p)"
proof (cases pre rule: rev_cases)
  case Nil
  then show ?thesis by (simp add: js_index_def)
next
  case (snoc ps p)
  then show ?thesis by (simp add: js_index_def nth_append)
qed

lemma amazon_no_dp:
  assumes "''dp'' \<notin> set (js_split CHR ''/'' (pathname u))"
  shows "amazon_branch u =
     Inl (Error ''Could not find a valid ASIN (e.g., /dp/B0CX59H5W7) in the Amazon URL.'')"
  using indexOf_notin[OF assms] by (simp add: amazon_branch_def)

lemma amazon_branch_first_dp:
  assumes "js_split CHR ''/'' (pathname u) = pre @ ''dp'' # rest" and "''dp'' \<notin> set pre"
  shows "amazon_branch u =
     (case rest of
        [] \<Rightarrow> Inl (Error ''Could not find a valid ASIN (e.g., /dp/B0CX59H5W7) in the Amazon URL.'')
      | seg # _ \<Rightarrow>
          if seg = []
          then Inl (Error ''Could not find a valid ASIN (e.g., /dp/B0CX59H5W7) in the Amazon URL.'')
          else Inr \<lparr> name = ''(Amazon) '' @ plain_name (case rev pre of
                                                          [] \<Rightarrow> ''Amazon Product''
                                                        | p # _ \<Rightarrow> if p = [] then ''Amazon Product'' else p),
                     productId = seg, storeType = ''amazon'', partNumber = None \<rparr>)"
proof -
  have i: "indexOf (js_split CHR ''/'' (pathname u)) ''dp'' = int (length pre)"
    using indexOf_first[OF assms(2)] assms(1) by simp
  have a: "js_index (js_split CHR ''/'' (pathname u)) (int (length pre) + 1)
           = (case rest of [] \<Rightarrow> None | s # _ \<Rightarrow> Some s)"
    using js_index_after[of pre "''dp''" rest] assms(1) by simp
  have b: "js_index (js_split CHR ''/'' (pathname u)) (int (length pre) - 1)
           = (case rev pre of [] \<Rightarrow> None | p # _ \<Rightarrow> Some p)"
    using js_index_before[of pre "''dp''" rest] assms(1) by simp
  have ne: "int (length pre) \<noteq> - 1" by simp
  show ?thesis
    unfolding amazon_branch_def Let_def i a b
    using ne by (simp split: list.splits)
qed

lemma js_split_ne: "js_split c s \<noteq> []"
  by (induction s) (auto split: list.splits)

lemma last_part_eq: "last_part xs = (if xs = [] then None else Some (last xs))"
proof (cases xs rule: rev_cases)
  case Nil
  then show ?thesis by (simp add: last_part_def js_index_def)
next
  case (snoc ys y)
  then show ?thesis by (simp add: last_part_def js_index_def nth_append)
qed

lemma last_filter:
  assumes "xs \<noteq> []" and "P (last xs)"
  shows "filter P xs \<noteq> [] \<and> last (filter P xs) = last xs"
  using assms by (cases xs rule: rev_cases) simp_all

lemma last_js_split_empty:
  "last (js_split c s) = [] \<Longrightarrow> s = [] \<or> last s = c"
proof (induction s)
  case Nil
  then show ?case by simp
next
  case (Cons a cs)
  show ?case
  proof (cases "a = c")
    case True
    with Cons.prems have "last (js_split c cs) = []" by (simp add: js_split_ne)
    from Cons.IH[OF this] True show ?thesis by auto
  next
    case False
    obtain w ws where s: "js_split c cs = w # ws" using js_split_ne[of c cs] by (cases "js_split c cs") auto
    with False Cons.prems have ws: "ws \<noteq> []" and l: "last ws = []" by (auto split: if_splits)
    from s ws l have "last (js_split c cs) = []" by simp
    from Cons.IH[OF this] have "cs = [] \<or> last cs = c" .
    moreover have "cs \<noteq> []" using s ws by auto
    ultimately show ?thesis by simp
  qed
qed

lemma nonempty_parts_last:
  assumes "last (js_split CHR ''/'' p) \<noteq> []"
  shows "last_part (nonempty_parts p) = Some (last (js_split CHR ''/'' p))"
  using last_filter[of "js_split CHR ''/'' p" "\<lambda>s. length s > 0"] js_split_ne[of "CHR ''/''" p] assms
  by (simp add: last_part_eq nonempty_parts_def)

lemma nonempty_parts_no_slash:
  assumes "\<not> suffix ''/'' p" and "last_part (nonempty_parts p) = Some s"
  shows "last (js_split CHR ''/'' p) = s"
proof -
  have pne: "p \<noteq> []" using assms(2) by (auto simp: nonempty_parts_def last_part_eq)
  have "last p \<noteq> CHR ''/''"
  proof
    assume "last p = CHR ''/''"
    with pne have "p = butlast p @ ''/''" by (metis append_butlast_last_id)
    then have "suffix ''/'' p" by (metis suffixI)
    with assms(1) show False by simp
  qed
  with pne have "last (js_split CHR ''/'' p) \<noteq> []" using last_js_split_empty by blast
  from nonempty_parts_last[OF this] assms(2) show ?thesis by simp
qed

lemma croma_branch_eq:
  "croma_branch u =
     (if all_digits (last (js_split CHR ''/'' (pathname u)))
      then Inr \<lparr> name = ''(Croma) ''
                     @ plain_name (or_default (js_index (js_split CHR ''/'' (pathname u)) 1) ''Croma Product''),
                 productId = last (js_split CHR ''/'' (pathname u)),
                 storeType = ''croma'', partNumber = None \<rparr>
      else Inl (Error ''Could not find a valid product ID in the Croma URL.''))"
  by (simp add: croma_branch_def Let_def last_part_eq js_split_ne all_digits_def)

section \<open>The resolver's results\<close>

text \<open>
  Claim C1. For every URL and every optional part number the resolver returns exactly
  one of a product and a failure: whatever the \<open>try\<close> block throws, the \<open>catch\<close> turns
  into a failure carrying the exception's message, which is never empty. A URL that does
  not parse is the failure \<open>Invalid URL\<close>; a Reliance Digital page that cannot be fetched
  (the request is rejected, the status is not a success, the body cannot be read) is the
  failure about the Item Code. No third outcome exists.
\<close>

theorem getProductDetails_one_result:
  "((\<exists>d. getProductDetails w url partNo = Details d)
      \<noteq> (\<exists>m. m \<noteq> [] \<and> getProductDetails w url partNo = Failure m))
   \<and> (\<forall>e. resolve w url partNo = Inl e \<longrightarrow> getProductDetails w url partNo = Failure (message e))
   \<and> (urlParse w url = None \<longrightarrow> getProductDetails w url partNo = Failure ''Invalid URL'')
   \<and> (\<forall>u. urlParse w url = Some u \<and> str_includes (hostname u) ''reliancedigital.in''
          \<and> \<not> str_includes (hostname u) ''vivo.com'' \<and> \<not> str_includes (hostname u) ''iqoo.com''
          \<and> (fetchPage w url = Rejected \<or> (\<exists>b. fetchPage w url = Response False b)
               \<or> fetchPage w url = Response True Unreadable) \<longrightarrow>
        getProductDetails w url partNo
          = Failure ''Could not extract the internal Item Code from the Reliance Digital page.'')"
proof (intro conjI allI impI)
  show "(\<exists>d. getProductDetails w url partNo = Details d)
      \<noteq> (\<exists>m. m \<noteq> [] \<and> getProductDetails w url partNo = Failure m)"
  proof (cases "resolve w url partNo")
    case (Inl e)
    then show ?thesis using resolve_error_message[OF Inl] by (simp add: getProductDetails_def)
  next
    case (Inr d)
    then show ?thesis by (simp add: getProductDetails_def)
  qed
next
  fix e assume "resolve w url partNo = Inl e"
  then show "getProductDetails w url partNo = Failure (message e)"
    by (simp add: getProductDetails_def)
next
  assume "urlParse w url = None"
  then show "getProductDetails w url partNo = Failure ''Invalid URL''"
    by (simp add: getProductDetails_def resolve_def invalid_url_def)
next
  fix u
  assume a: "urlParse w url = Some u \<and> str_includes (hostname u) ''reliancedigital.in''
          \<and> \<not> str_includes (hostname u) ''vivo.com'' \<and> \<not> str_includes (hostname u) ''iqoo.com''
          \<and> (fetchPage w url = Rejected \<or> (\<exists>b. fetchPage w url = Response False b)
               \<or> fetchPage w url = Response True Unreadable)"
  then show "getProductDetails w url partNo
          = Failure ''Could not extract the internal Item Code from the Reliance Digital page.''"
    using scrape_failure[of w url u partNo] by blast
qed

theorem getProductDetails_one_result_witness:
  "urlParse sample_world ''not a url'' = None
   \<and> getProductDetails sample_world ''not a url'' None = Failure ''Invalid URL''
   \<and> fetchPage sample_world ''https://www.reliancedigital.in/offline/p/3'' = Rejected
   \<and> getProductDetails sample_world ''https://www.reliancedigital.in/offline/p/3'' None
       = Failure ''Could not extract the internal Item Code from the Reliance Digital page.''"
proof -
  let ?url = "''https://www.reliancedigital.in/offline/p/3''"
  let ?u = "\<lparr> hostname = ''www.reliancedigital.in'', pathname = ''/offline/p/3'',
              searchParams_pid = None \<rparr>"
  have h: "urlParse sample_world ''not a url'' = None"
    by code_simp
  with getProductDetails_one_result [of sample_world "''not a url''" None]
  have a: "getProductDetails sample_world ''not a url'' None = Failure ''Invalid URL''"
    by blast
  have p: "urlParse sample_world ?url = Some ?u" by code_simp
  have s: "str_includes (hostname ?u) ''reliancedigital.in''"
    "\<not> str_includes (hostname ?u) ''vivo.com''" "\<not> str_includes (hostname ?u) ''iqoo.com''"
    by code_simp+
  have f: "fetchPage sample_world ?url = Rejected" by code_simp
  from getProductDetails_one_result [of sample_world ?url None] p s f
  have b: "getProductDetails sample_world ?url None
       = Failure ''Could not extract the internal Item Code from the Reliance Digital page.''"
    by blast
  from h a f b show ?thesis by (intro conjI)
qed

text \<open>
  Claim C2, as the code has it. A URL reaches the Croma branch when its host contains
  \<open>croma.com\<close> and none of the six signatures tested before it. For such a URL a
  returned product has as its id the last non-empty path segment, which is all digits,
  and its name comes from the element at index 1 of the path split at the slashes, or
  the default; the resolution fails whenever the last non-empty segment is missing or
  not all digits; and when the path does not end in a slash it fails only then.
\<close>

theorem croma_last_segment:
  assumes "urlParse w url = Some u"
    and "str_includes (hostname u) ''croma.com''"
    and "\<not> str_includes (hostname u) ''vivo.com''"
    and "\<not> str_includes (hostname u) ''iqoo.com''"
    and "\<not> str_includes (hostname u) ''reliancedigital.in''"
    and "\<not> str_includes (hostname u) ''flipkart.com''"
    and "\<not> str_includes (hostname u) ''amazon.in''"
    and "\<not> str_includes (hostname u) ''apple.com''"
  shows "(\<forall>d. getProductDetails w url partNo = Details d \<longrightarrow>
            last_part (nonempty_parts (pathname u)) = Some (productId d)
            \<and> all_digits (productId d)
            \<and> d = \<lparr> name = ''(Croma) ''
                       @ plain_name (or_default (js_index (js_split CHR ''/'' (pathname u)) 1)
                                       ''Croma Product''),
                     productId = productId d, storeType = ''croma'', partNumber = None \<rparr>)
       \<and> ((\<forall>s. last_part (nonempty_parts (pathname u)) = Some s \<longrightarrow> \<not> all_digits s) \<longrightarrow>
            getProductDetails w url partNo
              = Failure ''Could not find a valid product ID in the Croma URL.'')
       \<and> (\<not> suffix ''/'' (pathname u)
            \<and> (\<exists>s. last_part (nonempty_parts (pathname u)) = Some s \<and> all_digits s) \<longrightarrow>
            (\<exists>d. getProductDetails w url partNo = Details d))"
proof -
  let ?l = "last (js_split CHR ''/'' (pathname u))"
  let ?d = "\<lparr> name = ''(Croma) ''
                       @ plain_name (or_default (js_index (js_split CHR ''/'' (pathname u)) 1)
                                       ''Croma Product''),
               productId = ?l, storeType = ''croma'', partNumber = None \<rparr>"
  have g: "getProductDetails w url partNo =
       (if all_digits ?l then Details ?d
        else Failure ''Could not find a valid product ID in the Croma URL.'')"
    using resolve_croma[OF assms, of partNo]
    by (simp add: getProductDetails_catch croma_branch_eq)
  have np: "last_part (nonempty_parts (pathname u)) = Some ?l" if "all_digits ?l"
    using that nonempty_parts_last[of "pathname u"] by (simp add: all_digits_def)
  have a: "\<forall>d. getProductDetails w url partNo = Details d \<longrightarrow>
            last_part (nonempty_parts (pathname u)) = Some (productId d)
            \<and> all_digits (productId d)
            \<and> d = \<lparr> name = ''(Croma) ''
                       @ plain_name (or_default (js_index (js_split CHR ''/'' (pathname u)) 1)
                                       ''Croma Product''),
                     productId = productId d, storeType = ''croma'', partNumber = None \<rparr>"
  proof (intro allI impI)
    fix d assume "getProductDetails w url partNo = Details d"
    with g have dig: "all_digits ?l" and d: "d = ?d" by (simp_all split: if_splits)
    from d have pid: "productId d = ?l" by simp
    from np[OF dig] dig d pid
    show "last_part (nonempty_parts (pathname u)) = Some (productId d)
            \<and> all_digits (productId d)
            \<and> d = \<lparr> name = ''(Croma) ''
                       @ plain_name (or_default (js_index (js_split CHR ''/'' (pathname u)) 1)
                                       ''Croma Product''),
                     productId = productId d, storeType = ''croma'', partNumber = None \<rparr>"
      by simp
  qed
  have b: "(\<forall>s. last_part (nonempty_parts (pathname u)) = Some s \<longrightarrow> \<not> all_digits s) \<longrightarrow>
            getProductDetails w url partNo
              = Failure ''Could not find a valid product ID in the Croma URL.''"
  proof
    assume h: "\<forall>s. last_part (nonempty_parts (pathname u)) = Some s \<longrightarrow> \<not> all_digits s"
    have "\<not> all_digits ?l"
    proof
      assume dig: "all_digits ?l"
      from np[OF dig] h dig show False by blast
    qed
    with g show "getProductDetails w url partNo
              = Failure ''Could not find a valid product ID in the Croma URL.''" by simp
  qed
  have c: "\<not> suffix ''/'' (pathname u)
            \<and> (\<exists>s. last_part (nonempty_parts (pathname u)) = Some s \<and> all_digits s) \<longrightarrow>
            (\<exists>d. getProductDetails w url partNo = Details d)"
  proof
    assume h: "\<not> suffix ''/'' (pathname u)
            \<and> (\<exists>s. last_part (nonempty_parts (pathname u)) = Some s \<and> all_digits s)"
    then obtain s where s: "last_part (nonempty_parts (pathname u)) = Some s" "all_digits s"
      by blast
    from h nonempty_parts_no_slash[OF _ s(1)] have "?l = s" by blast
    with s(2) g show "\<exists>d. getProductDetails w url partNo = Details d" by simp
  qed
  from a b c show ?thesis by (intro conjI)
qed

theorem croma_last_segment_witness:
  "urlParse sample_world ''https://www.croma.com/tv/p/123456''
     = Some \<lparr> hostname = ''www.croma.com'', pathname = ''/tv/p/123456'', searchParams_pid = None \<rparr>
   \<and> str_includes ''www.croma.com'' ''croma.com''
   \<and> getProductDetails sample_world ''https://www.croma.com/tv/p/123456'' None
       = Details \<lparr> name = ''(Croma) tv...'', productId = ''123456'', storeType = ''croma'',
                   partNumber = None \<rparr>
   \<and> last_part (nonempty_parts ''/tv/p/123456'') = Some ''123456''
   \<and> all_digits ''123456''
   \<and> urlParse sample_world ''https://www.croma.com/product/abc''
       = Some \<lparr> hostname = ''www.croma.com'', pathname = ''/product/abc'', searchParams_pid = None \<rparr>
   \<and> last_part (nonempty_parts ''/product/abc'') = Some ''abc''
   \<and> \<not> all_digits ''abc''
   \<and> getProductDetails sample_world ''https://www.croma.com/product/abc'' None
       = Failure ''Could not find a valid product ID in the Croma URL.''"
proof -
  let ?u = "\<lparr> hostname = ''www.croma.com'', pathname = ''/tv/p/123456'', searchParams_pid = None \<rparr>"
  let ?d = "\<lparr> name = ''(Croma) tv...'', productId = ''123456'', storeType = ''croma'',
              partNumber = None \<rparr>"
  have p: "urlParse sample_world ''https://www.croma.com/tv/p/123456'' = Some ?u"
    by code_simp
  have h: "str_includes (hostname ?u) ''croma.com''"
    "\<not> str_includes (hostname ?u) ''vivo.com''"
    "\<not> str_includes (hostname ?u) ''iqoo.com''"
    "\<not> str_includes (hostname ?u) ''reliancedigital.in''"
    "\<not> str_includes (hostname ?u) ''flipkart.com''"
    "\<not> str_includes (hostname ?u) ''amazon.in''"
    "\<not> str_includes (hostname ?u) ''apple.com''"
    by code_simp+
  have e: "getProductDetails sample_world ''https://www.croma.com/tv/p/123456'' None = Details ?d"
    by code_simp
  from croma_last_segment [OF p h, of None] e
  have a: "last_part (nonempty_parts (pathname ?u)) = Some (productId ?d) \<and> all_digits (productId ?d)"
    by blast
  let ?v = "\<lparr> hostname = ''www.croma.com'', pathname = ''/product/abc'', searchParams_pid = None \<rparr>"
  have q: "urlParse sample_world ''https://www.croma.com/product/abc'' = Some ?v"
    by code_simp
  have k: "str_includes (hostname ?v) ''croma.com''"
    "\<not> str_includes (hostname ?v) ''vivo.com''"
    "\<not> str_includes (hostname ?v) ''iqoo.com''"
    "\<not> str_includes (hostname ?v) ''reliancedigital.in''"
    "\<not> str_includes (hostname ?v) ''flipkart.com''"
    "\<not> str_includes (hostname ?v) ''amazon.in''"
    "\<not> str_includes (hostname ?v) ''apple.com''"
    by code_simp+
  have l: "last_part (nonempty_parts (pathname ?v)) = Some ''abc''" by code_simp
  have n: "\<not> all_digits ''abc''" by code_simp
  from l n have "\<forall>s. last_part (nonempty_parts (pathname ?v)) = Some s \<longrightarrow> \<not> all_digits s"
    by simp
  with croma_last_segment [OF q k, of None]
  have f: "getProductDetails sample_world ''https://www.croma.com/product/abc'' None
       = Failure ''Could not find a valid product ID in the Croma URL.''"
    by blast
  from p h(1) e a q l n f show ?thesis by simp
qed

text \<open>
  Claim C2 as written fails twice. The branch reads the last element of the split path
  without dropping the empty ones, so a path that ends in a slash has no id although its
  last non-empty segment is all digits; and a host that contains \<open>croma.com\<close> and an
  earlier signature is resolved by the earlier branch.
\<close>

theorem croma_claim_counterexample:
  "urlParse sample_world ''https://www.croma.com/tv/p/123456/''
     = Some \<lparr> hostname = ''www.croma.com'', pathname = ''/tv/p/123456/'', searchParams_pid = None \<rparr>
   \<and> str_includes ''www.croma.com'' ''croma.com''
   \<and> last_part (nonempty_parts ''/tv/p/123456/'') = Some ''123456''
   \<and> all_digits ''123456''
   \<and> getProductDetails sample_world ''https://www.croma.com/tv/p/123456/'' None
       = Failure ''Could not find a valid product ID in the Croma URL.''
   \<and> urlParse sample_world ''https://croma.com.flipkart.com/tv/p/123456?pid=TVX1''
       = Some \<lparr> hostname = ''croma.com.flipkart.com'', pathname = ''/tv/p/123456'',
                searchParams_pid = Some ''TVX1'' \<rparr>
   \<and> str_includes ''croma.com.flipkart.com'' ''croma.com''
   \<and> last_part (nonempty_parts ''/tv/p/123456'') = Some ''123456''
   \<and> getProductDetails sample_world ''https://croma.com.flipkart.com/tv/p/123456?pid=TVX1'' None
       = Details \<lparr> name = ''(Flipkart) tv...'', productId = ''TVX1'', storeType = ''flipkart'',
                   partNumber = None \<rparr>"
  by code_simp

text \<open>
  Claim C3, as the code has it. A raw name longer than 50 characters is cut to exactly 50
  characters and the three dots, 53 characters in all. The name of a returned product is
  the store's label, then at most 50 characters of the raw name, then the dots: the part
  after the label is at most 53 characters long and the whole name at most 66, the
  longest label \<open>(R. Digital)\<close> with its space being 13 characters long.
\<close>

theorem name_length_bounded:
  "(50 < length raw \<longrightarrow>
      plain_name raw = take 50 (hyphens_to_spaces raw) @ ''...'' \<and> length (plain_name raw) = 53
      \<and> title_name raw = take 50 (capitalize_words (hyphens_to_spaces raw)) @ ''...''
      \<and> length (title_name raw) = 53)
   \<and> (getProductDetails w url partNo = Details d \<longrightarrow>
        (\<exists>l r body. l \<in> set store_labels \<and> name d = l @ body @ ''...''
           \<and> (body = take 50 (hyphens_to_spaces r)
                \<or> body = take 50 (capitalize_words (hyphens_to_spaces r)))
           \<and> length body \<le> 50 \<and> (50 < length r \<longrightarrow> length body = 50))
        \<and> length (name d) \<le> 66)"
proof (intro conjI impI)
  assume "50 < length raw"
  then show "length (plain_name raw) = 53" "length (title_name raw) = 53"
    by (rule length_plain_name_long, rule length_title_name_long)
next
  show "plain_name raw = take 50 (hyphens_to_spaces raw) @ ''...''"
    by (simp only: plain_name_def)
  show "title_name raw = take 50 (capitalize_words (hyphens_to_spaces raw)) @ ''...''"
    by (simp only: title_name_def)
next
  assume "getProductDetails w url partNo = Details d"
  then have r: "resolve w url partNo = Inr d" by (simp only: getProductDetails_Details)
  from resolve_label[OF r] obtain l s where l: "l \<in> set store_labels" "branch_shape l s d"
    by blast
  from shape_name[OF l(2)] l(1)
  show "\<exists>l r body. l \<in> set store_labels \<and> name d = l @ body @ ''...''
           \<and> (body = take 50 (hyphens_to_spaces r)
                \<or> body = take 50 (capitalize_words (hyphens_to_spaces r)))
           \<and> length body \<le> 50 \<and> (50 < length r \<longrightarrow> length body = 50)"
    by blast
  from shape_length[OF l(2)] obtain body where b: "name d = l @ body" "length body \<le> 53"
    by blast
  from store_labels_length[OF l(1)] b show "length (name d) \<le> 66" by simp
qed

theorem name_length_bounded_witness:
  "50 < length ''samsung-galaxy-s24-ultra-5g-256-gb-titanium-gray-smartphone-with-s-pen''
   \<and> length (title_name ''samsung-galaxy-s24-ultra-5g-256-gb-titanium-gray-smartphone-with-s-pen'') = 53
   \<and> getProductDetails sample_world
     ''https://www.reliancedigital.in/samsung-galaxy-s24-ultra-5g-256-gb-titanium-gray-smartphone-with-s-pen/491234567''
     None
     = Details \<lparr> name = ''(R. Digital) Samsung Galaxy S24 Ultra 5g 256 Gb Titanium Gray S...'',
                 productId = ''300012345'', storeType = ''reliance_digital'',
                 partNumber = Some ''491234567'' \<rparr>
   \<and> length (name \<lparr> name = ''(R. Digital) Samsung Galaxy S24 Ultra 5g 256 Gb Titanium Gray S...'',
                 productId = ''300012345'', storeType = ''reliance_digital'',
                 partNumber = Some ''491234567'' \<rparr>) \<le> 66"
proof -
  let ?raw = "''samsung-galaxy-s24-ultra-5g-256-gb-titanium-gray-smartphone-with-s-pen''"
  let ?url = "''https://www.reliancedigital.in/samsung-galaxy-s24-ultra-5g-256-gb-titanium-gray-smartphone-with-s-pen/491234567''"
  let ?d = "\<lparr> name = ''(R. Digital) Samsung Galaxy S24 Ultra 5g 256 Gb Titanium Gray S...'',
                 productId = ''300012345'', storeType = ''reliance_digital'',
                 partNumber = Some ''491234567'' \<rparr>"
  have l: "50 < length ?raw" by simp
  have e: "getProductDetails sample_world ?url None = Details ?d" by code_simp
  note t = name_length_bounded [of ?raw sample_world ?url None ?d]
  from t l have a: "length (title_name ?raw) = 53" by blast
  from t e have b: "length (name ?d) \<le> 66" by blast
  from l a e b show ?thesis by (intro conjI)
qed

text \<open>
  Claim C3 as written fails: with the label the name of a Reliance Digital product is 66
  characters long, not 53.
\<close>

theorem name_length_counterexample:
  "getProductDetails sample_world
     ''https://www.reliancedigital.in/samsung-galaxy-s24-ultra-5g-256-gb-titanium-gray-smartphone-with-s-pen/491234567''
     None
     = Details \<lparr> name = ''(R. Digital) Samsung Galaxy S24 Ultra 5g 256 Gb Titanium Gray S...'',
                 productId = ''300012345'', storeType = ''reliance_digital'',
                 partNumber = Some ''491234567'' \<rparr>
   \<and> length ''(R. Digital) Samsung Galaxy S24 Ultra 5g 256 Gb Titanium Gray S...'' = 66
   \<and> \<not> length ''(R. Digital) Samsung Galaxy S24 Ultra 5g 256 Gb Titanium Gray S...'' \<le> 53"
  by code_simp

text \<open>
  Claim C4. On a fetched page the scraper tries two tiers in order. The first row whose
  label, the trimmed text of its first span, equals \<open>Item Code\<close> gives the article id,
  its trimmed value, whatever rows follow and whatever the \<open>og:image\<close> says. Without
  such a row the id is what the pattern finds in the \<open>og:image\<close> content: nine digits
  between a hyphen and \<open>-i-1\<close>, and nothing when the content has no such place; an image
  address ending in \<open>foo-300012345-i-1-202.jpg\<close> gives \<open>300012345\<close>. When both tiers
  give nothing the scraper returns nothing and the branch fails.
\<close>

theorem reliance_two_tiers:
  assumes "fetchPage w url = Response True (Html pg)"
  shows "(\<forall>pre el post.
            spec_rows pg = pre @ el # post
            \<and> list_all (\<lambda>r. js_trim (label_text r) \<noteq> ''Item Code'') pre
            \<and> js_trim (label_text el) = ''Item Code'' \<and> js_trim (value_text el) \<noteq> [] \<longrightarrow>
            getRelianceDigitalArticleId w url = Some (js_trim (value_text el)))
       \<and> (list_all (\<lambda>r. js_trim (label_text r) \<noteq> ''Item Code'') (spec_rows pg) \<longrightarrow>
            getRelianceDigitalArticleId w url
              = (case og_image pg of None \<Rightarrow> None | Some im \<Rightarrow> og_image_match im))
       \<and> (\<forall>im d. og_image_match im = Some d \<longrightarrow>
            length d = 9 \<and> list_all is_digit d
            \<and> (\<exists>pre post. im = pre @ ''-'' @ d @ ''-i-1'' @ post))
       \<and> (\<forall>im. og_image_match im = None \<longrightarrow>
            \<not> (\<exists>pre d post. im = pre @ ''-'' @ d @ ''-i-1'' @ post
                  \<and> length d = 9 \<and> list_all is_digit d))
       \<and> og_image_match ''https://cdn.example/img/foo-300012345-i-1-202.jpg'' = Some ''300012345''
       \<and> (\<not> truthy (each_row (spec_rows pg) None)
            \<and> (case og_image pg of None \<Rightarrow> True | Some im \<Rightarrow> og_image_match im = None) \<longrightarrow>
            \<not> truthy (getRelianceDigitalArticleId w url)
            \<and> (\<forall>u. reliance_branch w url u =
                  Inl (Error ''Could not extract the internal Item Code from the Reliance Digital page.'')))
       \<and> (\<forall>u d. reliance_branch w url u = Inr d \<longrightarrow>
            getRelianceDigitalArticleId w url = Some (productId d))"
proof (intro conjI allI impI)
  fix pre el post
  assume a: "spec_rows pg = pre @ el # post
            \<and> list_all (\<lambda>r. js_trim (label_text r) \<noteq> ''Item Code'') pre
            \<and> js_trim (label_text el) = ''Item Code'' \<and> js_trim (value_text el) \<noteq> []"
  then have "scrape_page pg = Some (js_trim (value_text el))"
    using scrape_first_row[of pg pre el post] by simp
  then show "getRelianceDigitalArticleId w url = Some (js_trim (value_text el))"
    by (simp only: article_id_ok[OF assms])
next
  assume "list_all (\<lambda>r. js_trim (label_text r) \<noteq> ''Item Code'') (spec_rows pg)"
  from scrape_no_row[OF this]
  show "getRelianceDigitalArticleId w url
              = (case og_image pg of None \<Rightarrow> None | Some im \<Rightarrow> og_image_match im)"
    by (simp only: article_id_ok[OF assms])
next
  fix im d assume m: "og_image_match im = Some d"
  from og_image_match_Some[OF m]
  show "length d = 9" "list_all is_digit d" "\<exists>pre post. im = pre @ ''-'' @ d @ ''-i-1'' @ post"
    by blast+
next
  fix im assume "og_image_match im = None"
  from og_image_match_None[OF this]
  show "\<not> (\<exists>pre d post. im = pre @ ''-'' @ d @ ''-i-1'' @ post
                  \<and> length d = 9 \<and> list_all is_digit d)" .
next
  show "og_image_match ''https://cdn.example/img/foo-300012345-i-1-202.jpg'' = Some ''300012345''"
    by code_simp
next
  assume a: "\<not> truthy (each_row (spec_rows pg) None)
            \<and> (case og_image pg of None \<Rightarrow> True | Some im \<Rightarrow> og_image_match im = None)"
  then have "\<not> truthy (scrape_page pg)" using scrape_nothing[of pg] by blast
  then have n: "\<not> truthy (getRelianceDigitalArticleId w url)"
    using article_id_ok[OF assms] by simp
  then show "\<not> truthy (getRelianceDigitalArticleId w url)" .
  show "\<And>u. reliance_branch w url u =
      Inl (Error ''Could not extract the internal Item Code from the Reliance Digital page.'')"
    using reliance_no_article[OF n] .
next
  fix u d assume "reliance_branch w url u = Inr d"
  then show "getRelianceDigitalArticleId w url = Some (productId d)"
    by (rule reliance_productId)
qed

theorem reliance_two_tiers_witness:
  "fetchPage sample_world
     ''https://www.reliancedigital.in/samsung-galaxy-s24-ultra-5g-256-gb-titanium-gray-smartphone-with-s-pen/491234567''
     = Response True (Html item_code_page)
   \<and> getRelianceDigitalArticleId sample_world
     ''https://www.reliancedigital.in/samsung-galaxy-s24-ultra-5g-256-gb-titanium-gray-smartphone-with-s-pen/491234567''
     = Some ''300012345''
   \<and> fetchPage sample_world ''https://www.reliancedigital.in/foo/p/1''
     = Response True (Html og_image_page)
   \<and> getRelianceDigitalArticleId sample_world ''https://www.reliancedigital.in/foo/p/1''
     = Some ''300012345''
   \<and> getProductDetails sample_world ''https://www.reliancedigital.in/foo/p/1'' None
     = Details \<lparr> name = ''(R. Digital) P...'', productId = ''300012345'',
                 storeType = ''reliance_digital'', partNumber = Some ''1'' \<rparr>"
proof -
  let ?u1 = "''https://www.reliancedigital.in/samsung-galaxy-s24-ultra-5g-256-gb-titanium-gray-smartphone-with-s-pen/491234567''"
  let ?u2 = "''https://www.reliancedigital.in/foo/p/1''"
  let ?pre = "[\<lparr> label_text = ''Brand'', value_text = ''Samsung'' \<rparr>]"
  let ?el = "\<lparr> label_text = '' Item Code '', value_text = '' 300012345 '' \<rparr>"
  let ?post = "[\<lparr> label_text = ''Item Code'', value_text = ''999999999'' \<rparr>]"
  have f1: "fetchPage sample_world ?u1 = Response True (Html item_code_page)" by code_simp
  have f2: "fetchPage sample_world ?u2 = Response True (Html og_image_page)" by code_simp
  have r: "spec_rows item_code_page = ?pre @ ?el # ?post" by (simp add: item_code_page_def)
  have n: "list_all (\<lambda>r. js_trim (label_text r) \<noteq> ''Item Code'') ?pre" by code_simp
  have l: "js_trim (label_text ?el) = ''Item Code''" by code_simp
  have v: "js_trim (value_text ?el) = ''300012345''" by code_simp
  then have v': "js_trim (value_text ?el) \<noteq> []" by simp
  from reliance_two_tiers [OF f1] r n l v'
  have "getRelianceDigitalArticleId sample_world ?u1 = Some (js_trim (value_text ?el))"
    by blast
  with v have a: "getRelianceDigitalArticleId sample_world ?u1 = Some ''300012345''" by simp
  have n2: "list_all (\<lambda>r. js_trim (label_text r) \<noteq> ''Item Code'') (spec_rows og_image_page)"
    by (simp add: og_image_page_def)
  have o: "og_image og_image_page = Some ''https://cdn.example/img/foo-300012345-i-1-202.jpg''"
    by (simp add: og_image_page_def)
  from reliance_two_tiers [OF f2] n2
  have "getRelianceDigitalArticleId sample_world ?u2
          = (case og_image og_image_page of None \<Rightarrow> None | Some im \<Rightarrow> og_image_match im)"
    and m: "og_image_match ''https://cdn.example/img/foo-300012345-i-1-202.jpg'' = Some ''300012345''"
    by blast+
  with o have b: "getRelianceDigitalArticleId sample_world ?u2 = Some ''300012345''" by simp
  have c: "getProductDetails sample_world ?u2 None
     = Details \<lparr> name = ''(R. Digital) P...'', productId = ''300012345'',
                 storeType = ''reliance_digital'', partNumber = Some ''1'' \<rparr>"
    by code_simp
  from f1 a f2 b c show ?thesis by (intro conjI)
qed

text \<open>
  Claim C5, as the code has it. A URL reaches the Amazon branch when its host contains
  \<open>amazon.in\<close> and none of the four signatures tested before it. For such a URL the
  resolution succeeds exactly when the path has a segment \<open>dp\<close> and the segment after
  the first \<open>dp\<close> is not empty; the product id is that segment, and the name comes from
  the segment before the first \<open>dp\<close>, or is the default \<open>Amazon Product\<close>.
\<close>

theorem amazon_first_dp_segment:
  assumes "urlParse w url = Some u"
    and "str_includes (hostname u) ''amazon.in''"
    and "\<not> str_includes (hostname u) ''vivo.com''"
    and "\<not> str_includes (hostname u) ''iqoo.com''"
    and "\<not> str_includes (hostname u) ''reliancedigital.in''"
    and "\<not> str_includes (hostname u) ''flipkart.com''"
  shows "(''dp'' \<notin> set (js_split CHR ''/'' (pathname u)) \<longrightarrow>
            getProductDetails w url partNo =
              Failure ''Could not find a valid ASIN (e.g., /dp/B0CX59H5W7) in the Amazon URL.'')
       \<and> (\<forall>pre rest. js_split CHR ''/'' (pathname u) = pre @ ''dp'' # rest \<and> ''dp'' \<notin> set pre \<longrightarrow>
            getProductDetails w url partNo =
              (case rest of
                 [] \<Rightarrow> Failure ''Could not find a valid ASIN (e.g., /dp/B0CX59H5W7) in the Amazon URL.''
               | seg # _ \<Rightarrow>
                   if seg = []
                   then Failure ''Could not find a valid ASIN (e.g., /dp/B0CX59H5W7) in the Amazon URL.''
                   else Details \<lparr> name = ''(Amazon) '' @ plain_name (case rev pre of
                                            [] \<Rightarrow> ''Amazon Product''
                                          | p # _ \<Rightarrow> if p = [] then ''Amazon Product'' else p),
                                  productId = seg, storeType = ''amazon'', partNumber = None \<rparr>))"
proof (intro conjI allI impI)
  note r = resolve_amazon[OF assms, of partNo]
  assume "''dp'' \<notin> set (js_split CHR ''/'' (pathname u))"
  from amazon_no_dp[OF this] r
  show "getProductDetails w url partNo =
              Failure ''Could not find a valid ASIN (e.g., /dp/B0CX59H5W7) in the Amazon URL.''"
    by (simp add: getProductDetails_catch)
next
  note r = resolve_amazon[OF assms, of partNo]
  fix pre rest
  assume a: "js_split CHR ''/'' (pathname u) = pre @ ''dp'' # rest \<and> ''dp'' \<notin> set pre"
  then have "amazon_branch u =
     (case rest of
        [] \<Rightarrow> Inl (Error ''Could not find a valid ASIN (e.g., /dp/B0CX59H5W7) in the Amazon URL.'')
      | seg # _ \<Rightarrow>
          if seg = []
          then Inl (Error ''Could not find a valid ASIN (e.g., /dp/B0CX59H5W7) in the Amazon URL.'')
          else Inr \<lparr> name = ''(Amazon) '' @ plain_name (case rev pre of
                                                          [] \<Rightarrow> ''Amazon Product''
                                                        | p # _ \<Rightarrow> if p = [] then ''Amazon Product'' else p),
                     productId = seg, storeType = ''amazon'', partNumber = None \<rparr>)"
    using amazon_branch_first_dp[of u pre rest] by blast
  with r show "getProductDetails w url partNo =
              (case rest of
                 [] \<Rightarrow> Failure ''Could not find a valid ASIN (e.g., /dp/B0CX59H5W7) in the Amazon URL.''
               | seg # _ \<Rightarrow>
                   if seg = []
                   then Failure ''Could not find a valid ASIN (e.g., /dp/B0CX59H5W7) in the Amazon URL.''
                   else Details \<lparr> name = ''(Amazon) '' @ plain_name (case rev pre of
                                            [] \<Rightarrow> ''Amazon Product''
                                          | p # _ \<Rightarrow> if p = [] then ''Amazon Product'' else p),
                                  productId = seg, storeType = ''amazon'', partNumber = None \<rparr>)"
    by (simp add: getProductDetails_catch split: list.splits)
qed

theorem amazon_first_dp_segment_witness:
  "urlParse sample_world ''https://www.amazon.in/Some-Great-Item/dp/B0CX59H5W7''
     = Some \<lparr> hostname = ''www.amazon.in'', pathname = ''/Some-Great-Item/dp/B0CX59H5W7'',
              searchParams_pid = None \<rparr>
   \<and> str_includes ''www.amazon.in'' ''amazon.in''
   \<and> js_split CHR ''/'' ''/Some-Great-Item/dp/B0CX59H5W7'' = ['''', ''Some-Great-Item''] @ ''dp'' # [''B0CX59H5W7'']
   \<and> getProductDetails sample_world ''https://www.amazon.in/Some-Great-Item/dp/B0CX59H5W7'' None
       = Details \<lparr> name = ''(Amazon) Some Great Item...'', productId = ''B0CX59H5W7'',
                   storeType = ''amazon'', partNumber = None \<rparr>"
proof -
  let ?url = "''https://www.amazon.in/Some-Great-Item/dp/B0CX59H5W7''"
  let ?u = "\<lparr> hostname = ''www.amazon.in'', pathname = ''/Some-Great-Item/dp/B0CX59H5W7'',
              searchParams_pid = None \<rparr>"
  let ?pre = "['''', ''Some-Great-Item'']"
  let ?rest = "[''B0CX59H5W7'']"
  have p: "urlParse sample_world ?url = Some ?u" by code_simp
  have h: "str_includes (hostname ?u) ''amazon.in''"
    "\<not> str_includes (hostname ?u) ''vivo.com''"
    "\<not> str_includes (hostname ?u) ''iqoo.com''"
    "\<not> str_includes (hostname ?u) ''reliancedigital.in''"
    "\<not> str_includes (hostname ?u) ''flipkart.com''"
    by code_simp+
  have s: "js_split CHR ''/'' (pathname ?u) = ?pre @ ''dp'' # ?rest" by code_simp
  have d: "''dp'' \<notin> set ?pre" by simp
  have n: "plain_name ''Some-Great-Item'' = ''Some Great Item...''" by code_simp
  from amazon_first_dp_segment [OF p h, of None] s d
  have "getProductDetails sample_world ?url None =
          (case ?rest of
             [] \<Rightarrow> Failure ''Could not find a valid ASIN (e.g., /dp/B0CX59H5W7) in the Amazon URL.''
           | seg # _ \<Rightarrow>
               if seg = []
               then Failure ''Could not find a valid ASIN (e.g., /dp/B0CX59H5W7) in the Amazon URL.''
               else Details \<lparr> name = ''(Amazon) '' @ plain_name (case rev ?pre of
                                        [] \<Rightarrow> ''Amazon Product''
                                      | p # _ \<Rightarrow> if p = [] then ''Amazon Product'' else p),
                              productId = seg, storeType = ''amazon'', partNumber = None \<rparr>)"
    by blast
  with n have e: "getProductDetails sample_world ?url None
       = Details \<lparr> name = ''(Amazon) Some Great Item...'', productId = ''B0CX59H5W7'',
                   storeType = ''amazon'', partNumber = None \<rparr>" by simp
  from p h(1) s e show ?thesis by simp
qed

text \<open>
  Claim C5 as written fails twice. \<open>indexOf\<close> finds the first \<open>dp\<close> only, so a path
  whose first \<open>dp\<close> is followed by an empty segment fails although a later \<open>dp\<close> is
  followed by an id; and a host that contains \<open>amazon.in\<close> and \<open>flipkart.com\<close> is resolved
  by the Flipkart branch.
\<close>

theorem amazon_claim_counterexample:
  "urlParse sample_world ''https://www.amazon.in/dp//x/dp/B0CX59H5W7''
     = Some \<lparr> hostname = ''www.amazon.in'', pathname = ''/dp//x/dp/B0CX59H5W7'',
              searchParams_pid = None \<rparr>
   \<and> str_includes ''www.amazon.in'' ''amazon.in''
   \<and> js_split CHR ''/'' ''/dp//x/dp/B0CX59H5W7'' = ['''', ''dp'', '''', ''x'', ''dp'', ''B0CX59H5W7'']
   \<and> getProductDetails sample_world ''https://www.amazon.in/dp//x/dp/B0CX59H5W7'' None
       = Failure ''Could not find a valid ASIN (e.g., /dp/B0CX59H5W7) in the Amazon URL.''
   \<and> urlParse sample_world ''https://amazon.in.flipkart.com/Some-Great-Item/dp/B0CX59H5W7''
       = Some \<lparr> hostname = ''amazon.in.flipkart.com'', pathname = ''/Some-Great-Item/dp/B0CX59H5W7'',
                searchParams_pid = None \<rparr>
   \<and> str_includes ''amazon.in.flipkart.com'' ''amazon.in''
   \<and> js_split CHR ''/'' ''/Some-Great-Item/dp/B0CX59H5W7'' = ['''', ''Some-Great-Item'', ''dp'', ''B0CX59H5W7'']
   \<and> getProductDetails sample_world ''https://amazon.in.flipkart.com/Some-Great-Item/dp/B0CX59H5W7'' None
       = Failure (''Flipkart URL is missing a '' @ [CHR 0x22] @ ''pid'' @ [CHR 0x22] @ '' query parameter.'')"
  by code_simp

text \<open>
  Claim C6. A URL whose host contains \<open>iqoo.com\<close> is resolved by the iQOO branch, also
  when the host contains \<open>vivo.com\<close> as well: the result is the iQOO branch's and differs
  from the Vivo branch's, a returned product has the store type \<open>iqoo\<close> and never
  \<open>vivo\<close>, and the only failure is the iQOO branch's.
\<close>

theorem iqoo_host_never_vivo:
  assumes "urlParse w url = Some u" and "str_includes (hostname u) ''iqoo.com''"
  shows "resolve w url partNo = iqoo_branch u
     \<and> resolve w url partNo \<noteq> vivo_branch u
     \<and> (\<forall>d. getProductDetails w url partNo = Details d \<longrightarrow>
            storeType d = ''iqoo'' \<and> storeType d \<noteq> ''vivo'')
     \<and> (\<forall>m. getProductDetails w url partNo = Failure m \<longrightarrow>
            m = ''Could not find a valid product ID in the iQOO URL.'')"
proof -
  have r: "resolve w url partNo = iqoo_branch u"
    using assms by (simp add: resolve_def)
  have d: "storeType d = ''iqoo'' \<and> storeType d \<noteq> ''vivo''" if "iqoo_branch u = Inr d" for d
    using iqoo_shape[OF that] by (simp add: branch_shape_def)
  have m: "message e = ''Could not find a valid product ID in the iQOO URL.''"
    if "iqoo_branch u = Inl e" for e
    using iqoo_error[OF that] by simp
  show ?thesis
    using r iqoo_neq_vivo[of u] d m
    by (auto simp only: getProductDetails_Details getProductDetails_Failure)
qed

theorem iqoo_host_never_vivo_witness:
  "urlParse sample_world ''https://iqoo.com.vivo.com/in/iqoo-z7-pro/2057'' = Some \<lparr> hostname = ''iqoo.com.vivo.com'', pathname = ''/in/iqoo-z7-pro/2057'', searchParams_pid = None \<rparr>
   \<and> str_includes (hostname \<lparr> hostname = ''iqoo.com.vivo.com'', pathname = ''/in/iqoo-z7-pro/2057'', searchParams_pid = None \<rparr>) ''iqoo.com''
   \<and> str_includes (hostname \<lparr> hostname = ''iqoo.com.vivo.com'', pathname = ''/in/iqoo-z7-pro/2057'', searchParams_pid = None \<rparr>) ''vivo.com''
   \<and> resolve sample_world ''https://iqoo.com.vivo.com/in/iqoo-z7-pro/2057'' None = iqoo_branch \<lparr> hostname = ''iqoo.com.vivo.com'', pathname = ''/in/iqoo-z7-pro/2057'', searchParams_pid = None \<rparr>
   \<and> resolve sample_world ''https://iqoo.com.vivo.com/in/iqoo-z7-pro/2057'' None \<noteq> vivo_branch \<lparr> hostname = ''iqoo.com.vivo.com'', pathname = ''/in/iqoo-z7-pro/2057'', searchParams_pid = None \<rparr>"
proof -
  have p: "urlParse sample_world ''https://iqoo.com.vivo.com/in/iqoo-z7-pro/2057'' = Some \<lparr> hostname = ''iqoo.com.vivo.com'', pathname = ''/in/iqoo-z7-pro/2057'', searchParams_pid = None \<rparr>"
    by (simp add: sample_world_def sample_parse_def)
  have i: "str_includes (hostname \<lparr> hostname = ''iqoo.com.vivo.com'', pathname = ''/in/iqoo-z7-pro/2057'', searchParams_pid = None \<rparr>) ''iqoo.com''"
    by code_simp
  have v: "str_includes (hostname \<lparr> hostname = ''iqoo.com.vivo.com'', pathname = ''/in/iqoo-z7-pro/2057'', searchParams_pid = None \<rparr>) ''vivo.com''"
    by code_simp
  from iqoo_host_never_vivo [OF p i, of None]
  have "resolve sample_world ''https://iqoo.com.vivo.com/in/iqoo-z7-pro/2057'' None = iqoo_branch \<lparr> hostname = ''iqoo.com.vivo.com'', pathname = ''/in/iqoo-z7-pro/2057'', searchParams_pid = None \<rparr>
        \<and> resolve sample_world ''https://iqoo.com.vivo.com/in/iqoo-z7-pro/2057'' None \<noteq> vivo_branch \<lparr> hostname = ''iqoo.com.vivo.com'', pathname = ''/in/iqoo-z7-pro/2057'', searchParams_pid = None \<rparr>"
    by blast
  with p i v show ?thesis by blast
qed

text \<open>
  Claim C7. Whenever the resolver returns a product, by whichever of the seven branches,
  its \<open>productId\<close> is a non-empty string.
\<close>

theorem productId_nonempty: "getProductDetails w url partNo = Details d \<Longrightarrow> productId d \<noteq> []"
  using resolve_shape[of w url partNo d] by (auto simp only: getProductDetails_Details dest: shape_productId)

theorem productId_nonempty_witness:
  "getProductDetails sample_world ''https://www.amazon.in/Some-Great-Item/dp/B0CX59H5W7'' None = Details \<lparr> name = ''(Amazon) Some Great Item...'', productId = ''B0CX59H5W7'', storeType = ''amazon'', partNumber = None \<rparr>
   \<and> productId \<lparr> name = ''(Amazon) Some Great Item...'', productId = ''B0CX59H5W7'', storeType = ''amazon'', partNumber = None \<rparr> \<noteq> []"
proof -
  have e: "getProductDetails sample_world ''https://www.amazon.in/Some-Great-Item/dp/B0CX59H5W7'' None = Details \<lparr> name = ''(Amazon) Some Great Item...'', productId = ''B0CX59H5W7'', storeType = ''amazon'', partNumber = None \<rparr>"
    by code_simp
  from productId_nonempty [OF e] have "productId \<lparr> name = ''(Amazon) Some Great Item...'', productId = ''B0CX59H5W7'', storeType = ''amazon'', partNumber = None \<rparr> \<noteq> []" .
  with e show ?thesis by (rule conjI)
qed

text \<open>
  Claim C8. The name of every product the resolver returns ends in the three dots: they
  are appended whether or not the raw name was longer than 50 characters.
\<close>

theorem name_ends_with_dots: "getProductDetails w url partNo = Details d \<Longrightarrow> suffix ''...'' (name d)"
  using resolve_shape[of w url partNo d] by (auto simp only: getProductDetails_Details dest: shape_suffix)

theorem name_ends_with_dots_witness:
  "getProductDetails sample_world ''https://iqoo.com.vivo.com/in/iqoo-z7-pro/2057'' None = Details \<lparr> name = ''(iQOO) Iqoo Z7 Pro...'', productId = ''2057'', storeType = ''iqoo'', partNumber = None \<rparr>
   \<and> suffix ''...'' (name \<lparr> name = ''(iQOO) Iqoo Z7 Pro...'', productId = ''2057'', storeType = ''iqoo'', partNumber = None \<rparr>)"
proof -
  have e: "getProductDetails sample_world ''https://iqoo.com.vivo.com/in/iqoo-z7-pro/2057'' None = Details \<lparr> name = ''(iQOO) Iqoo Z7 Pro...'', productId = ''2057'', storeType = ''iqoo'', partNumber = None \<rparr>"
    by code_simp
  from name_ends_with_dots [OF e] have "suffix ''...'' (name \<lparr> name = ''(iQOO) Iqoo Z7 Pro...'', productId = ''2057'', storeType = ''iqoo'', partNumber = None \<rparr>)" .
  with e show ?thesis by (rule conjI)
qed

text \<open>
  Claim C9. When the first row labelled \<open>Item Code\<close> has a value that trims to the empty
  string, the loop still ends there with an empty article id, and the \<open>og:image\<close> tier
  is consulted: the scraper returns what the pattern finds, and the empty string when it
  finds nothing.
\<close>

theorem empty_item_code_falls_back:
  assumes "fetchPage w url = Response True (Html pg)"
    and "spec_rows pg = pre @ el # post"
    and "list_all (\<lambda>r. js_trim (label_text r) \<noteq> ''Item Code'') pre"
    and "js_trim (label_text el) = ''Item Code''"
    and "js_trim (value_text el) = []"
  shows "each_row (spec_rows pg) None = Some []
       \<and> getRelianceDigitalArticleId w url =
           (case og_image pg of
              None \<Rightarrow> Some []
            | Some im \<Rightarrow> (case og_image_match im of None \<Rightarrow> Some [] | Some m \<Rightarrow> Some m))"
proof
  show "each_row (spec_rows pg) None = Some []"
    using each_row_first[OF assms(3,4), of post None] assms(2,5) by simp
  show "getRelianceDigitalArticleId w url =
           (case og_image pg of
              None \<Rightarrow> Some []
            | Some im \<Rightarrow> (case og_image_match im of None \<Rightarrow> Some [] | Some m \<Rightarrow> Some m))"
    using scrape_first_row[OF assms(2,3,4)] assms(5) by (simp add: article_id_ok[OF assms(1)])
qed

theorem empty_item_code_falls_back_witness:
  "fetchPage sample_world ''https://www.reliancedigital.in/bar/p/2''
     = Response True (Html empty_code_page)
   \<and> each_row (spec_rows empty_code_page) None = Some []
   \<and> getRelianceDigitalArticleId sample_world ''https://www.reliancedigital.in/bar/p/2''
     = Some ''300054321''"
proof -
  let ?u = "''https://www.reliancedigital.in/bar/p/2''"
  let ?el = "\<lparr> label_text = ''Item Code'', value_text = ''  '' \<rparr>"
  let ?post = "[\<lparr> label_text = ''Item Code'', value_text = ''999999999'' \<rparr>]"
  have f: "fetchPage sample_world ?u = Response True (Html empty_code_page)" by code_simp
  have r: "spec_rows empty_code_page = [] @ ?el # ?post" by (simp add: empty_code_page_def)
  have n: "list_all (\<lambda>r. js_trim (label_text r) \<noteq> ''Item Code'') []" by simp
  have l: "js_trim (label_text ?el) = ''Item Code''" by code_simp
  have v: "js_trim (value_text ?el) = []" by code_simp
  have o: "og_image empty_code_page = Some ''https://cdn.example/img/bar-300054321-i-1-202.jpg''"
    by (simp add: empty_code_page_def)
  have m: "og_image_match ''https://cdn.example/img/bar-300054321-i-1-202.jpg'' = Some ''300054321''"
    by code_simp
  from empty_item_code_falls_back [OF f r n l v]
  have a: "each_row (spec_rows empty_code_page) None = Some []"
    and "getRelianceDigitalArticleId sample_world ?u =
           (case og_image empty_code_page of
              None \<Rightarrow> Some []
            | Some im \<Rightarrow> (case og_image_match im of None \<Rightarrow> Some [] | Some m \<Rightarrow> Some m))"
    by blast+
  with o m have b: "getRelianceDigitalArticleId sample_world ?u = Some ''300054321''" by simp
  from f a b show ?thesis by (intro conjI)
qed

section \<open>The server action on a failure\<close>

text \<open>
  Claim C10. When the form has no URL (or an empty one), and when the resolver returns a
  failure, \<open>addProduct\<close> returns the error message and leaves the store as it was: no
  \<open>create\<close> call is made, nothing is stored and nothing is revalidated.
\<close>

theorem addProduct_failure_stores_nothing:
  "(\<not> truthy (form_url formData) \<longrightarrow>
      addProduct w formData s = (ActionError ''URL is required.'', s))
   \<and> (\<forall>url m. form_url formData = Some url \<and> url \<noteq> []
         \<and> getProductDetails w url (form_partNumber formData) = Failure m \<longrightarrow>
       addProduct w formData s = (ActionError m, s))"
proof (intro conjI allI impI)
  assume "\<not> truthy (form_url formData)"
  then show "addProduct w formData s = (ActionError ''URL is required.'', s)"
    by (simp add: addProduct_def)
next
  fix url m
  assume a: "form_url formData = Some url \<and> url \<noteq> []
         \<and> getProductDetails w url (form_partNumber formData) = Failure m"
  then obtain e where e: "resolve w url (form_partNumber formData) = Inl e" "message e = m"
    by (auto simp: getProductDetails_Failure)
  from resolve_error_message[OF e(1)] e(2) have "m \<noteq> []" by simp
  with a show "addProduct w formData s = (ActionError m, s)"
    by (simp add: addProduct_def Let_def)
qed

theorem addProduct_failure_stores_nothing_witness:
  "form_url \<lparr> form_url = Some ''https://www.croma.com/product/abc'', form_partNumber = None,
              form_affiliateLink = None \<rparr> = Some ''https://www.croma.com/product/abc''
   \<and> getProductDetails sample_world ''https://www.croma.com/product/abc'' None
       = Failure ''Could not find a valid product ID in the Croma URL.''
   \<and> addProduct sample_world
        \<lparr> form_url = Some ''https://www.croma.com/product/abc'', form_partNumber = None,
          form_affiliateLink = None \<rparr> empty_server
       = (ActionError ''Could not find a valid product ID in the Croma URL.'', empty_server)"
proof -
  let ?f = "\<lparr> form_url = Some ''https://www.croma.com/product/abc'', form_partNumber = None,
              form_affiliateLink = None \<rparr>"
  have u: "form_url ?f = Some ''https://www.croma.com/product/abc''" by simp
  have n: "''https://www.croma.com/product/abc'' \<noteq> []" by simp
  have g: "getProductDetails sample_world ''https://www.croma.com/product/abc'' (form_partNumber ?f)
       = Failure ''Could not find a valid product ID in the Croma URL.''"
    by code_simp
  from addProduct_failure_stores_nothing [of ?f sample_world empty_server] u n g
  have "addProduct sample_world ?f empty_server
       = (ActionError ''Could not find a valid product ID in the Croma URL.'', empty_server)"
    by blast
  with u g show ?thesis by simp
qed

end
